theory Spec2Isabelle
  imports Main "HOL-Library.Word"
begin

section \<open>Strings, bytes and form data of the runtime\<close>

text \<open>
  A JavaScript string is a sequence of UTF-16 code units; \<open>.length\<close> counts code units.
  The handlers compare lengths with 500 and 200, so the model keeps that unit.
  Identifiers, column names and messages that the code writes as literals are kept as
  HOL strings.
\<close>

type_synonym jsstring = "16 word list"
type_synonym bytes = "8 word list"

definition ascii :: "string \<Rightarrow> jsstring" where
  "ascii s = map of_char s"

text \<open>
  \<open>String.prototype.trim\<close> removes the WhiteSpace and LineTerminator code units of
  ECMAScript from both ends.
\<close>

definition isWhiteSpace :: "16 word \<Rightarrow> bool" where
  "isWhiteSpace c \<longleftrightarrow>
     c = 0x0009 \<or> c = 0x000A \<or> c = 0x000B \<or> c = 0x000C \<or> c = 0x000D \<or> c = 0x0020 \<or>
     c = 0x00A0 \<or> c = 0x1680 \<or> (0x2000 \<le> c \<and> c \<le> 0x200A) \<or>
     c = 0x2028 \<or> c = 0x2029 \<or> c = 0x202F \<or> c = 0x205F \<or> c = 0x3000 \<or> c = 0xFEFF"

definition trim :: "jsstring \<Rightarrow> jsstring" where
  "trim s = rev (dropWhile isWhiteSpace (rev (dropWhile isWhiteSpace s)))"

text \<open>\<open>Buffer.toString('hex')\<close> and \<open>digest('hex')\<close>: two lower-case digits per byte.\<close>

definition hexDigit :: "nat \<Rightarrow> 16 word" where
  "hexDigit n = (if n < 10 then 0x30 + of_nat n else 0x61 + of_nat (n - 10))"

definition toHex :: "bytes \<Rightarrow> jsstring" where
  "toHex bs = concat (map (\<lambda>b. [hexDigit (unat b div 16), hexDigit (unat b mod 16)]) bs)"

text \<open>
  \<open>FormData\<close>: an ordered list of (name, value) entries. The handlers cast every entry
  \<open>as string\<close>, and the model keeps that typing. \<open>get\<close> returns the first entry of the
  name or null, \<open>getAll\<close> every entry of the name in order.
\<close>

type_synonym formData = "(string \<times> jsstring) list"

definition fd_get :: "formData \<Rightarrow> string \<Rightarrow> jsstring option" where
  "fd_get fd name = map_of fd name"

definition fd_getAll :: "formData \<Rightarrow> string \<Rightarrow> jsstring list" where
  "fd_getAll fd name = map snd (filter (\<lambda>e. fst e = name) fd)"

text \<open>\<open>Boolean(s)\<close> on a string: the empty string is the only falsy one.\<close>

definition truthy :: "jsstring \<Rightarrow> bool" where
  "truthy s \<longleftrightarrow> s \<noteq> []"

section \<open>The server's world\<close>

record cookie =
  c_value :: jsstring
  c_httpOnly :: bool
  c_secure :: bool
  c_sameSite :: string
  c_path :: string
  c_maxAge :: nat

record user =
  u_id :: string
  u_email :: string
  u_role :: "string option"

record poll =
  p_id :: string
  p_user_id :: string
  p_question :: jsstring
  p_options :: "jsstring list"

record vote =
  v_poll_id :: string
  v_user_id :: string
  v_option_index :: int

text \<open>The requests the handlers send to the hosted platform, one per call site kind.\<close>

datatype request =
    AuthGetUser
  | PollsInsert | PollsSelect | PollsUpdate | PollsDelete
  | VotesSelect | VotesInsert | VotesDelete

text \<open>
  Everything outside the handlers that they read or change:
  the cookie store of the request (\<open>cookies()\<close>), the environment flag, Node's
  \<open>crypto\<close> module (the SHA-256 digest as a function, the outcomes of successive
  \<open>randomBytes(32)\<close> calls), the identity of the session, the two tables, the ids the
  database gives to new poll rows, the failures of the platform (the message a request
  kind fails with, if it fails), the requests sent so far and the paths revalidated.
\<close>

record world =
  cookieStore :: "string \<rightharpoonup> cookie"
  production :: bool
  sha256 :: "jsstring \<Rightarrow> bytes"
  entropy :: "nat \<Rightarrow> bytes"
  drawn :: nat
  session :: "user option"
  polls :: "poll list"
  votes :: "vote list"
  new_id :: "nat \<Rightarrow> string"
  inserted :: nat
  fault :: "request \<Rightarrow> string option"
  trace :: "request list"
  revalidated :: "string list"

section \<open>csrf-protection.ts\<close>

definition CSRF_COOKIE_NAME :: string where
  "CSRF_COOKIE_NAME = ''csrf_token''"

definition CSRF_HEADER_NAME :: string where
  "CSRF_HEADER_NAME = ''X-CSRF-Token''"

definition CSRF_FORM_FIELD :: string where
  "CSRF_FORM_FIELD = ''csrf_token''"

definition TOKEN_EXPIRY :: nat where
  "TOKEN_EXPIRY = 24 * 60 * 60 * 1000"

definition generateCSRFToken :: "world \<Rightarrow> jsstring \<times> world" where
  "generateCSRFToken w = (toHex (entropy w (drawn w)), w\<lparr>drawn := Suc (drawn w)\<rparr>)"

definition hashToken :: "world \<Rightarrow> jsstring \<Rightarrow> jsstring" where
  "hashToken w token = toHex (sha256 w token)"

definition setCSRFToken :: "world \<Rightarrow> jsstring \<times> world" where
  "setCSRFToken w =
     (let (token, w1) = generateCSRFToken w;
          hashedToken = hashToken w1 token
      in (token,
          w1\<lparr>cookieStore := (cookieStore w1)(CSRF_COOKIE_NAME \<mapsto>
               \<lparr>c_value = hashedToken, c_httpOnly = True, c_secure = production w1,
                c_sameSite = ''lax'', c_path = ''/'', c_maxAge = TOKEN_EXPIRY div 1000\<rparr>)\<rparr>))"

definition validateCSRFToken :: "world \<Rightarrow> jsstring \<Rightarrow> bool" where
  "validateCSRFToken w token =
     (case cookieStore w CSRF_COOKIE_NAME of
        None \<Rightarrow> False
      | Some c \<Rightarrow>
          let storedToken = c_value c in
          if storedToken = [] \<or> token = [] then False
          else let hashedToken = hashToken w token in hashedToken = storedToken)"

definition getCSRFToken :: "world \<Rightarrow> jsstring \<times> world" where
  "getCSRFToken w = setCSRFToken w"

section \<open>The platform client\<close>

definition send :: "request \<Rightarrow> world \<Rightarrow> world" where
  "send r w = w\<lparr>trace := trace w @ [r]\<rparr>"

text \<open>\<open>supabase.auth.getUser()\<close>: the pair (data.user, error message).\<close>

definition getUser :: "world \<Rightarrow> (user option \<times> string option) \<times> world" where
  "getUser w =
     ((case fault w AuthGetUser of
         Some m \<Rightarrow> (None, Some m)
       | None \<Rightarrow> (session w, None)),
      send AuthGetUser w)"

text \<open>
  \<open>.single()\<close> answers with the row when exactly one row matches and with an error
  otherwise; \<open>.maybeSingle()\<close> answers with null and no error when no row matches.
\<close>

definition ROWS_ERROR :: string where
  "ROWS_ERROR = ''JSON object requested, multiple (or no) rows returned''"

definition single :: "'a list \<Rightarrow> 'a option \<times> string option" where
  "single rows = (case rows of [r] \<Rightarrow> (Some r, None) | _ \<Rightarrow> (None, Some ROWS_ERROR))"

definition maybeSingle :: "'a list \<Rightarrow> 'a option \<times> string option" where
  "maybeSingle rows =
     (case rows of [] \<Rightarrow> (None, None) | [r] \<Rightarrow> (Some r, None) | _ \<Rightarrow> (None, Some ROWS_ERROR))"

text \<open>
  The tables of the platform are lists of rows. A select filters the rows by the
  \<open>eq\<close> conditions, an insert appends a row (the database gives a new poll its id), an
  update rewrites the matching rows and a delete removes them. A request that fails
  answers with its message and changes no table. Every request is recorded in the trace.
\<close>

definition from_polls_select_single :: "string \<Rightarrow> world \<Rightarrow> (poll option \<times> string option) \<times> world" where
  "from_polls_select_single pid w =
     ((case fault w PollsSelect of
         Some m \<Rightarrow> (None, Some m)
       | None \<Rightarrow> single (filter (\<lambda>p. p_id p = pid) (polls w))),
      send PollsSelect w)"

definition from_votes_select_maybeSingle ::
  "string \<Rightarrow> string \<Rightarrow> world \<Rightarrow> (vote option \<times> string option) \<times> world" where
  "from_votes_select_maybeSingle pid uid w =
     ((case fault w VotesSelect of
         Some m \<Rightarrow> (None, Some m)
       | None \<Rightarrow> maybeSingle (filter (\<lambda>v. v_poll_id v = pid \<and> v_user_id v = uid) (votes w))),
      send VotesSelect w)"

definition from_polls_insert :: "string \<Rightarrow> jsstring \<Rightarrow> jsstring list \<Rightarrow> world \<Rightarrow> string option \<times> world" where
  "from_polls_insert uid q opts w =
     (case fault w PollsInsert of
        Some m \<Rightarrow> (Some m, send PollsInsert w)
      | None \<Rightarrow>
          (None, send PollsInsert
             (w\<lparr>polls := polls w @
                   [\<lparr>p_id = new_id w (inserted w), p_user_id = uid,
                     p_question = q, p_options = opts\<rparr>],
                inserted := Suc (inserted w)\<rparr>)))"

definition from_polls_update :: "string \<Rightarrow> jsstring \<Rightarrow> jsstring list \<Rightarrow> world \<Rightarrow> string option \<times> world" where
  "from_polls_update pid q opts w =
     (case fault w PollsUpdate of
        Some m \<Rightarrow> (Some m, send PollsUpdate w)
      | None \<Rightarrow>
          (None, send PollsUpdate
             (w\<lparr>polls := map (\<lambda>p. if p_id p = pid
                                   then p\<lparr>p_question := q, p_options := opts\<rparr> else p)
                              (polls w)\<rparr>)))"

definition from_polls_delete :: "string \<Rightarrow> world \<Rightarrow> string option \<times> world" where
  "from_polls_delete pid w =
     (case fault w PollsDelete of
        Some m \<Rightarrow> (Some m, send PollsDelete w)
      | None \<Rightarrow>
          (None, send PollsDelete (w\<lparr>polls := filter (\<lambda>p. p_id p \<noteq> pid) (polls w)\<rparr>)))"

definition from_votes_insert :: "vote \<Rightarrow> world \<Rightarrow> string option \<times> world" where
  "from_votes_insert v w =
     (case fault w VotesInsert of
        Some m \<Rightarrow> (Some m, send VotesInsert w)
      | None \<Rightarrow> (None, send VotesInsert (w\<lparr>votes := votes w @ [v]\<rparr>)))"

definition from_votes_delete :: "string \<Rightarrow> world \<Rightarrow> string option \<times> world" where
  "from_votes_delete pid w =
     (case fault w VotesDelete of
        Some m \<Rightarrow> (Some m, send VotesDelete w)
      | None \<Rightarrow>
          (None, send VotesDelete (w\<lparr>votes := filter (\<lambda>v. v_poll_id v \<noteq> pid) (votes w)\<rparr>)))"

definition revalidatePath :: "string \<Rightarrow> world \<Rightarrow> world" where
  "revalidatePath p w = w\<lparr>revalidated := revalidated w @ [p]\<rparr>"

section \<open>poll-actions.ts\<close>

definition INVALID_TOKEN :: string where
  "INVALID_TOKEN = ''Invalid security token. Please refresh the page and try again.''"

definition INVALID_QUESTION :: string where
  "INVALID_QUESTION = ''Please provide a valid question.''"

definition QUESTION_TOO_LONG :: string where
  "QUESTION_TOO_LONG = ''Question is too long. Maximum 500 characters allowed.''"

definition TOO_FEW_OPTIONS :: string where
  "TOO_FEW_OPTIONS = ''Please provide at least two options.''"

definition TOO_MANY_OPTIONS :: string where
  "TOO_MANY_OPTIONS = ''Maximum 10 options allowed.''"

definition EMPTY_OPTION :: string where
  "EMPTY_OPTION = ''Empty options are not allowed.''"

definition OPTION_TOO_LONG :: string where
  "OPTION_TOO_LONG = ''Option text is too long. Maximum 200 characters allowed.''"

definition DUPLICATE_OPTIONS :: string where
  "DUPLICATE_OPTIONS = ''Duplicate options are not allowed.''"

definition LOGIN_TO_CREATE :: string where
  "LOGIN_TO_CREATE = ''You must be logged in to create a poll.''"

definition LOGIN_TO_VOTE :: string where
  "LOGIN_TO_VOTE = ''You must be logged in to vote.''"

definition LOGIN_TO_DELETE :: string where
  "LOGIN_TO_DELETE = ''You must be logged in to delete a poll.''"

definition LOGIN_TO_UPDATE :: string where
  "LOGIN_TO_UPDATE = ''You must be logged in to update a poll.''"

definition ALREADY_VOTED :: string where
  "ALREADY_VOTED = ''You have already voted on this poll.''"

definition POLL_NOT_FOUND :: string where
  "POLL_NOT_FOUND = ''Poll not found.''"

definition INVALID_OPTION :: string where
  "INVALID_OPTION = ''Invalid option selected.''"

definition NO_DELETE_PERMISSION :: string where
  "NO_DELETE_PERMISSION = ''You don't have permission to delete this poll.''"

definition NO_UPDATE_PERMISSION :: string where
  "NO_UPDATE_PERMISSION = ''You don't have permission to update this poll.''"

text \<open>The loop over the options: the first option that breaks a rule decides.\<close>

fun checkOptions :: "jsstring list \<Rightarrow> string option" where
  "checkOptions [] = None"
| "checkOptions (option # rest) =
     (if trim option = [] then Some EMPTY_OPTION
      else if length option > 200 then Some OPTION_TOO_LONG
      else checkOptions rest)"

text \<open>
  The input validation block, which createPoll (lines 20 to 52) and updatePoll
  (lines 233 to 265) both contain, statement for statement. The set of the trimmed
  options has as many elements as the list without its repetitions.
\<close>

definition checkPollInput :: "jsstring option \<Rightarrow> jsstring list \<Rightarrow> string option" where
  "checkPollInput question options =
     (case question of
        None \<Rightarrow> Some INVALID_QUESTION
      | Some q \<Rightarrow>
          if q = [] \<or> trim q = [] then Some INVALID_QUESTION
          else if length q > 500 then Some QUESTION_TOO_LONG
          else if length options < 2 then Some TOO_FEW_OPTIONS
          else if length options > 10 then Some TOO_MANY_OPTIONS
          else (case checkOptions options of
                  Some e \<Rightarrow> Some e
                | None \<Rightarrow>
                    if length (remdups (map trim options)) \<noteq> length options
                    then Some DUPLICATE_OPTIONS
                    else None))"

text \<open>The question after the handler has seen that it is not null.\<close>

definition as_string :: "jsstring option \<Rightarrow> jsstring" where
  "as_string v = (case v of None \<Rightarrow> [] | Some s \<Rightarrow> s)"

definition isAdminUser :: "user \<Rightarrow> bool" where
  "isAdminUser u \<longleftrightarrow> u_role u = Some ''admin''"

definition createPoll :: "world \<Rightarrow> formData \<Rightarrow> string option \<times> world" where
  "createPoll w formData =
     (let csrfToken = fd_get formData CSRF_FORM_FIELD in
      if (case csrfToken of None \<Rightarrow> True | Some t \<Rightarrow> t = [] \<or> \<not> validateCSRFToken w t)
      then (Some INVALID_TOKEN, w)
      else
        let question = fd_get formData ''question'';
            options = filter truthy (fd_getAll formData ''options'')
        in case checkPollInput question options of
             Some e \<Rightarrow> (Some e, w)
           | None \<Rightarrow>
               let ((user, userError), w1) = getUser w in
               (case userError of
                  Some m \<Rightarrow> (Some m, w1)
                | None \<Rightarrow>
                    (case user of
                       None \<Rightarrow> (Some LOGIN_TO_CREATE, w1)
                     | Some u \<Rightarrow>
                         let sanitizedQuestion = trim (as_string question);
                             sanitizedOptions = map trim options;
                             (error, w2) =
                               from_polls_insert (u_id u) sanitizedQuestion sanitizedOptions w1
                         in (case error of
                               Some m \<Rightarrow> (Some m, w2)
                             | None \<Rightarrow> (None, revalidatePath ''/polls'' w2)))))"

text \<open>
  \<open>optionIndex\<close> is typed \<open>number\<close>; the model takes the integral values, which are
  the ones an option index has.
\<close>

definition submitVote :: "world \<Rightarrow> string \<Rightarrow> int \<Rightarrow> jsstring option \<Rightarrow> string option \<times> world" where
  "submitVote w pollId optionIndex csrfToken =
     (if (case csrfToken of None \<Rightarrow> False | Some t \<Rightarrow> t \<noteq> [] \<and> \<not> validateCSRFToken w t)
      then (Some INVALID_TOKEN, w)
      else
        let ((user, userError), w1) = getUser w in
        (case user of
           None \<Rightarrow> (Some LOGIN_TO_VOTE, w1)
         | Some u \<Rightarrow>
             let ((existingVote, checkError), w2) = from_votes_select_maybeSingle pollId (u_id u) w1 in
             (case checkError of
                Some m \<Rightarrow> (Some m, w2)
              | None \<Rightarrow>
                  (case existingVote of
                     Some v \<Rightarrow> (Some ALREADY_VOTED, w2)
                   | None \<Rightarrow>
                       let ((poll, pollError), w3) = from_polls_select_single pollId w2 in
                       (case pollError of
                          Some m \<Rightarrow> (Some m, w3)
                        | None \<Rightarrow>
                            (case poll of
                               None \<Rightarrow> (Some POLL_NOT_FOUND, w3)
                             | Some p \<Rightarrow>
                                 if optionIndex < 0 \<or> optionIndex \<ge> int (length (p_options p))
                                 then (Some INVALID_OPTION, w3)
                                 else from_votes_insert
                                        \<lparr>v_poll_id = pollId, v_user_id = u_id u,
                                         v_option_index = optionIndex\<rparr> w3))))))"

text \<open>The two deletions that end deletePoll, the votes of the poll first.\<close>

definition deleteRows :: "string \<Rightarrow> world \<Rightarrow> string option \<times> world" where
  "deleteRows pid w =
     (let (votesError, w1) = from_votes_delete pid w in
      case votesError of
        Some m \<Rightarrow> (Some m, w1)
      | None \<Rightarrow>
          let (error, w2) = from_polls_delete pid w1 in
          (case error of
             Some m \<Rightarrow> (Some m, w2)
           | None \<Rightarrow> (None, revalidatePath ''/polls'' w2)))"

definition deletePoll :: "world \<Rightarrow> string \<Rightarrow> string option \<times> world" where
  "deletePoll w pid =
     (let ((user, userError), w1) = getUser w in
      case userError of
        Some m \<Rightarrow> (Some m, w1)
      | None \<Rightarrow>
          (case user of
             None \<Rightarrow> (Some LOGIN_TO_DELETE, w1)
           | Some u \<Rightarrow>
               let isAdmin = isAdminUser u in
               if \<not> isAdmin then
                 let ((poll, pollError), w2) = from_polls_select_single pid w1 in
                 (case pollError of
                    Some m \<Rightarrow> (Some m, w2)
                  | None \<Rightarrow>
                      (case poll of
                         None \<Rightarrow> (Some POLL_NOT_FOUND, w2)
                       | Some p \<Rightarrow>
                           if p_user_id p \<noteq> u_id u then (Some NO_DELETE_PERMISSION, w2)
                           else deleteRows pid w2))
               else deleteRows pid w1))"

definition updatePoll :: "world \<Rightarrow> string \<Rightarrow> formData \<Rightarrow> string option \<times> world" where
  "updatePoll w pollId formData =
     (let csrfToken = fd_get formData CSRF_FORM_FIELD in
      if (case csrfToken of None \<Rightarrow> True | Some t \<Rightarrow> t = [] \<or> \<not> validateCSRFToken w t)
      then (Some INVALID_TOKEN, w)
      else
        let question = fd_get formData ''question'';
            options = filter truthy (fd_getAll formData ''options'')
        in case checkPollInput question options of
             Some e \<Rightarrow> (Some e, w)
           | None \<Rightarrow>
               let ((user, userError), w1) = getUser w in
               (case userError of
                  Some m \<Rightarrow> (Some m, w1)
                | None \<Rightarrow>
                    (case user of
                       None \<Rightarrow> (Some LOGIN_TO_UPDATE, w1)
                     | Some u \<Rightarrow>
                         let isAdmin = isAdminUser u;
                             ((poll, pollError), w2) = from_polls_select_single pollId w1
                         in (case pollError of
                               Some m \<Rightarrow> (Some m, w2)
                             | None \<Rightarrow>
                                 (case poll of
                                    None \<Rightarrow> (Some POLL_NOT_FOUND, w2)
                                  | Some p \<Rightarrow>
                                      if \<not> isAdmin \<and> p_user_id p \<noteq> u_id u
                                      then (Some NO_UPDATE_PERMISSION, w2)
                                      else
                                        let sanitizedQuestion = trim (as_string question);
                                            sanitizedOptions = map trim options;
                                            (error, w3) =
                                              from_polls_update pollId sanitizedQuestion
                                                sanitizedOptions w2
                                        in (case error of
                                              Some m \<Rightarrow> (Some m, w3)
                                            | None \<Rightarrow>
                                                (None, revalidatePath ''/polls'' w3)))))))"

section \<open>Reference functions for the validation rules\<close>

text \<open>
  The order of the validation rules as the specification words it: one rule after the
  other, each over the whole submission; the empty-option rule over all options before
  the length rule over all options.
\<close>

definition stated_rule_order :: "jsstring option \<Rightarrow> jsstring list \<Rightarrow> string option" where
  "stated_rule_order question opts =
     (if (case question of None \<Rightarrow> True | Some q \<Rightarrow> trim q = []) then Some INVALID_QUESTION
      else if length (as_string question) > 500 then Some QUESTION_TOO_LONG
      else if length opts < 2 then Some TOO_FEW_OPTIONS
      else if length opts > 10 then Some TOO_MANY_OPTIONS
      else if list_ex (\<lambda>x. trim x = []) opts then Some EMPTY_OPTION
      else if list_ex (\<lambda>x. length x > 200) opts then Some OPTION_TOO_LONG
      else if \<not> distinct (map trim opts) then Some DUPLICATE_OPTIONS
      else None)"

text \<open>
  The same order with the two option rules taken together: the first option, in
  submission order, that is blank after trimming or longer than 200 code units decides,
  and it is reported as empty when it is blank.
\<close>

definition amended_rule_order :: "jsstring option \<Rightarrow> jsstring list \<Rightarrow> string option" where
  "amended_rule_order question opts =
     (if (case question of None \<Rightarrow> True | Some q \<Rightarrow> trim q = []) then Some INVALID_QUESTION
      else if length (as_string question) > 500 then Some QUESTION_TOO_LONG
      else if length opts < 2 then Some TOO_FEW_OPTIONS
      else if length opts > 10 then Some TOO_MANY_OPTIONS
      else case find (\<lambda>x. trim x = [] \<or> length x > 200) opts of
             Some x \<Rightarrow> if trim x = [] then Some EMPTY_OPTION else Some OPTION_TOO_LONG
           | None \<Rightarrow> if \<not> distinct (map trim opts) then Some DUPLICATE_OPTIONS else None)"

text \<open>A form without the option entries that are the empty string.\<close>

definition strip_empty_options :: "formData \<Rightarrow> formData" where
  "strip_empty_options fd = filter (\<lambda>e. \<not> (fst e = ''options'' \<and> snd e = [])) fd"

section \<open>Concrete worlds for the examples\<close>

text \<open>
  The digest of the examples is a stand-in of the right length (32 bytes): the low bytes
  of the first 32 code units, padded with zeros. The theorems hold for every digest
  function; the examples need one that the simplifier can run.
\<close>

definition toy_sha256 :: "jsstring \<Rightarrow> bytes" where
  "toy_sha256 s = take 32 (map ucast s @ replicate 32 0)"

definition alice :: user where
  "alice = \<lparr>u_id = ''alice'', u_email = ''alice@example.org'', u_role = None\<rparr>"

definition bob :: user where
  "bob = \<lparr>u_id = ''bob'', u_email = ''bob@example.org'', u_role = None\<rparr>"

definition root :: user where
  "root = \<lparr>u_id = ''root'', u_email = ''root@example.org'', u_role = Some ''admin''\<rparr>"

definition world0 :: world where
  "world0 = \<lparr>cookieStore = Map.empty, production = False, sha256 = toy_sha256,
     entropy = (\<lambda>n. of_nat n # replicate 31 0), drawn = 0, session = Some alice,
     polls = [], votes = [], new_id = (\<lambda>n. replicate (Suc n) CHR ''p''), inserted = 0,
     fault = (\<lambda>r. None), trace = [], revalidated = []\<rparr>"

definition world1 :: world where
  "world1 = snd (setCSRFToken world0)"

definition secret1 :: jsstring where
  "secret1 = fst (setCSRFToken world0)"

definition world2 :: world where
  "world2 = snd (getCSRFToken world1)"

definition secret2 :: jsstring where
  "secret2 = fst (getCSRFToken world1)"

definition tea :: jsstring where
  "tea = ascii ''tea''"

definition coffee_padded :: jsstring where
  "coffee_padded = ascii '' coffee ''"

definition long_option :: jsstring where
  "long_option = 0x61 # replicate 200 0x61"

definition blank_option :: jsstring where
  "blank_option = ascii ''  ''"

definition padded_question :: jsstring where
  "padded_question = 0x51 # replicate 500 0x20"

definition poll_b :: poll where
  "poll_b = \<lparr>p_id = ''p1'', p_user_id = ''bob'', p_question = ascii ''Tea or coffee?'',
              p_options = [ascii ''tea'', ascii ''coffee'']\<rparr>"

definition vote_b :: vote where
  "vote_b = \<lparr>v_poll_id = ''p1'', v_user_id = ''bob'', v_option_index = 0\<rparr>"

definition world_as :: "user \<Rightarrow> world" where
  "world_as u = world1\<lparr>session := Some u, polls := [poll_b], votes := [vote_b]\<rparr>"

definition form_ok :: formData where
  "form_ok = [(''csrf_token'', secret1), (''question'', ascii ''Tea? ''),
              (''options'', tea), (''options'', []), (''options'', coffee_padded)]"

definition form_long_blank :: formData where
  "form_long_blank = [(''csrf_token'', secret1), (''question'', ascii ''Q?''),
                      (''options'', long_option), (''options'', blank_option)]"

definition form_one_option :: formData where
  "form_one_option = [(''csrf_token'', secret1), (''question'', ascii ''Q?''), (''options'', tea)]"

definition votes_locked :: world where
  "votes_locked = (world_as bob)
     \<lparr>fault := (\<lambda>r. if r = VotesDelete then Some ''votes are locked'' else None)\<rparr>"

definition form_padded_question :: formData where
  "form_padded_question = [(''csrf_token'', secret1), (''question'', padded_question),
                           (''options'', tea), (''options'', coffee_padded)]"

section \<open>Hexadecimal encoding\<close>

lemma unat_hexDigit: "n < 16 \<Longrightarrow> unat (hexDigit n) = (if n < 10 then 48 + n else 87 + n)"
  by (auto simp: hexDigit_def unat_word_ariths unat_of_nat)

lemma hexDigit_inj: "m < 16 \<Longrightarrow> n < 16 \<Longrightarrow> hexDigit m = hexDigit n \<Longrightarrow> m = n"
proof -
  assume m: "m < 16" and n: "n < 16" and e: "hexDigit m = hexDigit n"
  from e have "unat (hexDigit m) = unat (hexDigit n)" by simp
  with m n show "m = n" by (simp add: unat_hexDigit split: if_splits)
qed

lemma byte_eqI:
  fixes a b :: "8 word"
  assumes "unat a div 16 = unat b div 16" and "unat a mod 16 = unat b mod 16"
  shows "a = b"
proof -
  have "unat a = unat b" using assms by (metis div_mult_mod_eq)
  then show ?thesis by (simp add: word_unat_eq_iff)
qed

lemma toHex_Cons:
  "toHex (b # bs) = hexDigit (unat b div 16) # hexDigit (unat b mod 16) # toHex bs"
  by (simp add: toHex_def)

lemma toHex_inj: "toHex xs = toHex ys \<Longrightarrow> xs = ys"
proof (induction xs arbitrary: ys)
  case Nil
  then show ?case by (cases ys) (simp_all add: toHex_def)
next
  case (Cons x xs)
  then obtain y ys' where ys: "ys = y # ys'" by (cases ys) (simp_all add: toHex_def)
  from Cons.prems ys have h: "hexDigit (unat x div 16) = hexDigit (unat y div 16)"
    "hexDigit (unat x mod 16) = hexDigit (unat y mod 16)" "toHex xs = toHex ys'"
    by (simp_all add: toHex_def)
  have "unat x < 256" "unat y < 256" using unsigned_less[of x] unsigned_less[of y] by simp_all
  then have "unat x div 16 < 16" "unat y div 16 < 16" by simp_all
  with h(1) have d: "unat x div 16 = unat y div 16" by (simp add: hexDigit_inj)
  have "unat x mod 16 < 16" "unat y mod 16 < 16" by simp_all
  with h(2) have m: "unat x mod 16 = unat y mod 16" by (simp add: hexDigit_inj)
  from d m have "x = y" by (rule byte_eqI)
  with Cons.IH[OF h(3)] ys show ?case by simp
qed

lemma length_toHex: "length (toHex bs) = 2 * length bs"
  by (induction bs) (simp_all add: toHex_def)

lemma toHex_Nil_iff: "toHex bs = [] \<longleftrightarrow> bs = []"
  using length_toHex[of bs] by (metis length_0_conv mult_is_0 zero_neq_numeral)

section \<open>The token service\<close>

lemma hashToken_Nil_iff: "hashToken w t = [] \<longleftrightarrow> sha256 w t = []"
  by (simp add: hashToken_def toHex_Nil_iff)

lemma setCSRFToken_eq:
  "setCSRFToken w =
     (toHex (entropy w (drawn w)),
      w\<lparr>drawn := Suc (drawn w),
        cookieStore := (cookieStore w)(CSRF_COOKIE_NAME \<mapsto>
          \<lparr>c_value = hashToken w (toHex (entropy w (drawn w))), c_httpOnly = True,
           c_secure = production w, c_sameSite = ''lax'', c_path = ''/'',
           c_maxAge = 86400\<rparr>)\<rparr>)"
  by (simp add: setCSRFToken_def generateCSRFToken_def hashToken_def TOKEN_EXPIRY_def)

lemma length_toy_sha256: "length (toy_sha256 t) = 32"
  by (simp add: toy_sha256_def)

text \<open>
  Claim C3. validateCSRFToken answers true exactly when the cookie store holds a stored
  hash, the candidate is not empty and the hex digest of the candidate is the stored
  hash (SHA-256 digests have 32 bytes, so the hex digest is never the empty string);
  the empty candidate never validates, and nothing validates without a cookie.
\<close>

theorem validateCSRFToken_iff:
  "(length (sha256 w token) = 32 \<longrightarrow>
      (validateCSRFToken w token \<longleftrightarrow>
         (\<exists>c. cookieStore w CSRF_COOKIE_NAME = Some c \<and> token \<noteq> [] \<and>
              hashToken w token = c_value c))) \<and>
   \<not> validateCSRFToken w [] \<and>
   (cookieStore w CSRF_COOKIE_NAME = None \<longrightarrow> \<not> validateCSRFToken w token)"
proof (intro conjI impI)
  assume len: "length (sha256 w token) = 32"
  then have ne: "hashToken w token \<noteq> []"
    by (auto simp: hashToken_Nil_iff)
  show "validateCSRFToken w token \<longleftrightarrow>
         (\<exists>c. cookieStore w CSRF_COOKIE_NAME = Some c \<and> token \<noteq> [] \<and>
              hashToken w token = c_value c)"
    using ne by (auto simp: validateCSRFToken_def Let_def split: option.splits)
next
  show "\<not> validateCSRFToken w []"
    by (simp add: validateCSRFToken_def split: option.splits)
next
  assume "cookieStore w CSRF_COOKIE_NAME = None"
  then show "\<not> validateCSRFToken w token"
    by (simp add: validateCSRFToken_def)
qed

theorem validateCSRFToken_iff_witness:
  "length (sha256 world1 secret1) = 32 \<and>
   (validateCSRFToken world1 secret1 \<longleftrightarrow>
      (\<exists>c. cookieStore world1 CSRF_COOKIE_NAME = Some c \<and> secret1 \<noteq> [] \<and>
           hashToken world1 secret1 = c_value c)) \<and>
   cookieStore world0 CSRF_COOKIE_NAME = None \<and> \<not> validateCSRFToken world0 secret1"
proof -
  have len: "length (sha256 world1 secret1) = 32"
    by (simp add: world1_def setCSRFToken_eq world0_def length_toy_sha256)
  have none: "cookieStore world0 CSRF_COOKIE_NAME = None"
    by (simp add: world0_def)
  show ?thesis
    using len none validateCSRFToken_iff [of world1 secret1]
      validateCSRFToken_iff [of world0 secret1]
    by simp
qed

text \<open>
  Claim C2. The secret that an issuance (setCSRFToken or getCSRFToken) returns validates
  against the cookie store the issuance leaves; after a second issuance, whose secret has
  another digest, the first secret no longer validates and the second one does. The
  draws of randomBytes(32) and the digests have 32 bytes.
\<close>

theorem issued_secret_validates:
  assumes i1: "issue1 = setCSRFToken \<or> issue1 = getCSRFToken"
      and i2: "issue2 = setCSRFToken \<or> issue2 = getCSRFToken"
      and r1: "issue1 w = (s, w1)"
      and r2: "issue2 w1 = (s', w2)"
      and e1: "length (entropy w (drawn w)) = 32"
      and e2: "length (entropy w1 (drawn w1)) = 32"
      and d1: "length (sha256 w s) = 32"
      and d2: "length (sha256 w s') = 32"
      and nc: "sha256 w s' \<noteq> sha256 w s"
  shows "validateCSRFToken w1 s \<and> \<not> validateCSRFToken w2 s \<and> validateCSRFToken w2 s'"
proof -
  from i1 r1 have r1': "setCSRFToken w = (s, w1)" by (auto simp: getCSRFToken_def)
  from i2 r2 have r2': "setCSRFToken w1 = (s', w2)" by (auto simp: getCSRFToken_def)
  from r1' have s: "s = toHex (entropy w (drawn w))"
    and c1: "cookieStore w1 CSRF_COOKIE_NAME =
               Some \<lparr>c_value = hashToken w s, c_httpOnly = True, c_secure = production w,
                     c_sameSite = ''lax'', c_path = ''/'', c_maxAge = 86400\<rparr>"
    and h1: "sha256 w1 = sha256 w"
    by (auto simp: setCSRFToken_eq)
  from r2' have s': "s' = toHex (entropy w1 (drawn w1))"
    and c2: "cookieStore w2 CSRF_COOKIE_NAME =
               Some \<lparr>c_value = hashToken w1 s', c_httpOnly = True, c_secure = production w1,
                     c_sameSite = ''lax'', c_path = ''/'', c_maxAge = 86400\<rparr>"
    and h2: "sha256 w2 = sha256 w1"
    by (auto simp: setCSRFToken_eq)
  from s e1 have sne: "s \<noteq> []" by (auto simp: toHex_Nil_iff)
  from s' e2 have sne': "s' \<noteq> []" by (auto simp: toHex_Nil_iff)
  from d1 have hne: "hashToken w s \<noteq> []" by (auto simp: hashToken_Nil_iff)
  from d2 have hne': "hashToken w s' \<noteq> []" by (auto simp: hashToken_Nil_iff)
  have hw1: "hashToken w1 t = hashToken w t" for t by (simp add: hashToken_def h1)
  have hw2: "hashToken w2 t = hashToken w t" for t by (simp add: hashToken_def h1 h2)
  from nc have hdiff: "hashToken w s \<noteq> hashToken w s'"
    by (auto simp: hashToken_def dest: toHex_inj)
  have a: "validateCSRFToken w1 s"
    using sne hne by (simp add: validateCSRFToken_def c1 hw1 Let_def)
  have b: "\<not> validateCSRFToken w2 s"
    using hdiff by (auto simp: validateCSRFToken_def c2 hw1 hw2 Let_def)
  have c: "validateCSRFToken w2 s'"
    using sne' hne' by (simp add: validateCSRFToken_def c2 hw1 hw2 Let_def)
  from a b c show ?thesis by simp
qed

theorem issued_secret_validates_witness:
  "validateCSRFToken world1 secret1 \<and> \<not> validateCSRFToken world2 secret1 \<and>
   validateCSRFToken world2 secret2"
proof -
  have r1: "setCSRFToken world0 = (secret1, world1)" by (simp add: secret1_def world1_def)
  have r2: "getCSRFToken world1 = (secret2, world2)" by (simp add: secret2_def world2_def)
  have e1: "length (entropy world0 (drawn world0)) = 32" by (simp add: world0_def)
  have e2: "length (entropy world1 (drawn world1)) = 32"
    by (simp add: world1_def setCSRFToken_eq world0_def)
  have d1: "length (sha256 world0 secret1) = 32" by (simp add: world0_def length_toy_sha256)
  have d2: "length (sha256 world0 secret2) = 32" by (simp add: world0_def length_toy_sha256)
  have nc: "sha256 world0 secret2 \<noteq> sha256 world0 secret1"
    by (simp add: secret1_def secret2_def getCSRFToken_def world1_def setCSRFToken_eq
          world0_def toy_sha256_def toHex_Cons hexDigit_def)
  show ?thesis
    using issued_secret_validates [of setCSRFToken getCSRFToken, OF _ _ r1 r2 e1 e2 d1 d2 nc]
    by simp
qed

section \<open>The handlers, path by path\<close>

lemma send_simps [simp]:
  "cookieStore (send r w) = cookieStore w"
  "sha256 (send r w) = sha256 w"
  "session (send r w) = session w"
  "polls (send r w) = polls w"
  "votes (send r w) = votes w"
  "new_id (send r w) = new_id w"
  "inserted (send r w) = inserted w"
  "fault (send r w) = fault w"
  "trace (send r w) = trace w @ [r]"
  "revalidated (send r w) = revalidated w"
  by (simp_all add: send_def)

lemma revalidatePath_simps [simp]:
  "cookieStore (revalidatePath p w) = cookieStore w"
  "polls (revalidatePath p w) = polls w"
  "votes (revalidatePath p w) = votes w"
  "fault (revalidatePath p w) = fault w"
  "trace (revalidatePath p w) = trace w"
  by (simp_all add: revalidatePath_def)

lemma validate_Nil [simp]: "\<not> validateCSRFToken w []"
  by (simp add: validateCSRFToken_def split: option.splits)

lemma createPoll_flat:
  "createPoll w fd =
     (if \<not> (\<exists>t. fd_get fd CSRF_FORM_FIELD = Some t \<and> validateCSRFToken w t)
      then (Some INVALID_TOKEN, w)
      else case checkPollInput (fd_get fd ''question'') (filter truthy (fd_getAll fd ''options'')) of
        Some e \<Rightarrow> (Some e, w)
      | None \<Rightarrow>
         (case fault w AuthGetUser of
            Some m \<Rightarrow> (Some m, send AuthGetUser w)
          | None \<Rightarrow>
             (case session w of
                None \<Rightarrow> (Some LOGIN_TO_CREATE, send AuthGetUser w)
              | Some u \<Rightarrow>
                 (case fault w PollsInsert of
                    Some m \<Rightarrow> (Some m, send PollsInsert (send AuthGetUser w))
                  | None \<Rightarrow>
                     (None, revalidatePath ''/polls'' (send PollsInsert
                        ((send AuthGetUser w)\<lparr>polls := polls w @
                           [\<lparr>p_id = new_id w (inserted w), p_user_id = u_id u,
                             p_question = trim (as_string (fd_get fd ''question'')),
                             p_options = map trim (filter truthy (fd_getAll fd ''options''))\<rparr>],
                          inserted := Suc (inserted w)\<rparr>)))))))"
  by (auto simp: createPoll_def getUser_def from_polls_insert_def Let_def split: option.splits)

lemma submitVote_flat:
  "submitVote w pid i tok =
     (if (\<exists>t. tok = Some t \<and> t \<noteq> [] \<and> \<not> validateCSRFToken w t) then (Some INVALID_TOKEN, w)
      else case (case fault w AuthGetUser of Some m \<Rightarrow> None | None \<Rightarrow> session w) of
        None \<Rightarrow> (Some LOGIN_TO_VOTE, send AuthGetUser w)
      | Some u \<Rightarrow>
         (case fault w VotesSelect of
            Some m \<Rightarrow> (Some m, send VotesSelect (send AuthGetUser w))
          | None \<Rightarrow>
             (case filter (\<lambda>v. v_poll_id v = pid \<and> v_user_id v = u_id u) (votes w) of
                [v] \<Rightarrow> (Some ALREADY_VOTED, send VotesSelect (send AuthGetUser w))
              | v # v' # vs \<Rightarrow> (Some ROWS_ERROR, send VotesSelect (send AuthGetUser w))
              | [] \<Rightarrow>
                 (case fault w PollsSelect of
                    Some m \<Rightarrow> (Some m, send PollsSelect (send VotesSelect (send AuthGetUser w)))
                  | None \<Rightarrow>
                     (case filter (\<lambda>p. p_id p = pid) (polls w) of
                        [p] \<Rightarrow>
                          if i < 0 \<or> i \<ge> int (length (p_options p))
                          then (Some INVALID_OPTION,
                                send PollsSelect (send VotesSelect (send AuthGetUser w)))
                          else
                            (case fault w VotesInsert of
                               Some m \<Rightarrow> (Some m, send VotesInsert (send PollsSelect
                                            (send VotesSelect (send AuthGetUser w))))
                             | None \<Rightarrow>
                                (None, send VotesInsert
                                   ((send PollsSelect (send VotesSelect (send AuthGetUser w)))
                                      \<lparr>votes := votes w @
                                         [\<lparr>v_poll_id = pid, v_user_id = u_id u,
                                           v_option_index = i\<rparr>]\<rparr>)))
                      | _ \<Rightarrow> (Some ROWS_ERROR,
                              send PollsSelect (send VotesSelect (send AuthGetUser w))))))))"
  by (auto simp: submitVote_def getUser_def from_votes_select_maybeSingle_def
        from_polls_select_single_def from_votes_insert_def single_def maybeSingle_def Let_def
      split: option.splits list.splits)


lemma deleteRows_flat:
  "deleteRows pid w =
     (case fault w VotesDelete of
        Some m \<Rightarrow> (Some m, send VotesDelete w)
      | None \<Rightarrow>
         (case fault w PollsDelete of
            Some m \<Rightarrow>
              (Some m, send PollsDelete (send VotesDelete
                         (w\<lparr>votes := filter (\<lambda>v. v_poll_id v \<noteq> pid) (votes w)\<rparr>)))
          | None \<Rightarrow>
              (None, revalidatePath ''/polls'' (send PollsDelete ((send VotesDelete
                       (w\<lparr>votes := filter (\<lambda>v. v_poll_id v \<noteq> pid) (votes w)\<rparr>))
                          \<lparr>polls := filter (\<lambda>p. p_id p \<noteq> pid) (polls w)\<rparr>)))))"
  by (auto simp: deleteRows_def from_votes_delete_def from_polls_delete_def Let_def send_def
      split: option.splits)

lemma deletePoll_flat:
  "deletePoll w pid =
     (case fault w AuthGetUser of
        Some m \<Rightarrow> (Some m, send AuthGetUser w)
      | None \<Rightarrow>
         (case session w of
            None \<Rightarrow> (Some LOGIN_TO_DELETE, send AuthGetUser w)
          | Some u \<Rightarrow>
             if u_role u = Some ''admin'' then deleteRows pid (send AuthGetUser w)
             else
               (case fault w PollsSelect of
                  Some m \<Rightarrow> (Some m, send PollsSelect (send AuthGetUser w))
                | None \<Rightarrow>
                   (case filter (\<lambda>p. p_id p = pid) (polls w) of
                      [p] \<Rightarrow>
                        if p_user_id p \<noteq> u_id u
                        then (Some NO_DELETE_PERMISSION, send PollsSelect (send AuthGetUser w))
                        else deleteRows pid (send PollsSelect (send AuthGetUser w))
                    | _ \<Rightarrow> (Some ROWS_ERROR, send PollsSelect (send AuthGetUser w))))))"
  by (auto simp: deletePoll_def getUser_def from_polls_select_single_def single_def
        isAdminUser_def Let_def
      split: option.splits list.splits)

lemma updatePoll_flat:
  "updatePoll w pid fd =
     (if \<not> (\<exists>t. fd_get fd CSRF_FORM_FIELD = Some t \<and> validateCSRFToken w t)
      then (Some INVALID_TOKEN, w)
      else case checkPollInput (fd_get fd ''question'') (filter truthy (fd_getAll fd ''options'')) of
        Some e \<Rightarrow> (Some e, w)
      | None \<Rightarrow>
         (case fault w AuthGetUser of
            Some m \<Rightarrow> (Some m, send AuthGetUser w)
          | None \<Rightarrow>
             (case session w of
                None \<Rightarrow> (Some LOGIN_TO_UPDATE, send AuthGetUser w)
              | Some u \<Rightarrow>
                 (case fault w PollsSelect of
                    Some m \<Rightarrow> (Some m, send PollsSelect (send AuthGetUser w))
                  | None \<Rightarrow>
                     (case filter (\<lambda>p. p_id p = pid) (polls w) of
                        [p] \<Rightarrow>
                          if u_role u \<noteq> Some ''admin'' \<and> p_user_id p \<noteq> u_id u
                          then (Some NO_UPDATE_PERMISSION, send PollsSelect (send AuthGetUser w))
                          else
                            (case fault w PollsUpdate of
                               Some m \<Rightarrow> (Some m, send PollsUpdate (send PollsSelect
                                            (send AuthGetUser w)))
                             | None \<Rightarrow>
                                (None, revalidatePath ''/polls'' (send PollsUpdate
                                   ((send PollsSelect (send AuthGetUser w))
                                      \<lparr>polls := map (\<lambda>p. if p_id p = pid
                                           then p\<lparr>p_question :=
                                                    trim (as_string (fd_get fd ''question'')),
                                                  p_options := map trim (filter truthy
                                                    (fd_getAll fd ''options''))\<rparr>
                                           else p) (polls w)\<rparr>))))
                      | _ \<Rightarrow> (Some ROWS_ERROR, send PollsSelect (send AuthGetUser w)))))))"
  by (auto simp: updatePoll_def getUser_def from_polls_select_single_def single_def
        from_polls_update_def isAdminUser_def Let_def
      split: option.splits list.splits)

text \<open>
  Claim C1. On an existing poll, with an authenticated identity: an identity that is
  neither the owner nor an admin gets the permission error from deletePoll and from
  updatePoll (the latter once the token and the input have passed), and neither table
  changes; the owner and an admin, also one that does not own the poll, succeed: the
  poll and its votes are deleted, respectively the poll row is updated, when the store
  does not fail.
\<close>

theorem owner_or_admin_gate:
  assumes auth: "fault w AuthGetUser = None" "session w = Some u"
      and row: "fault w PollsSelect = None" "filter (\<lambda>p. p_id p = pid) (polls w) = [p]"
  shows
   "(u_role u \<noteq> Some ''admin'' \<and> p_user_id p \<noteq> u_id u \<longrightarrow>
       fst (deletePoll w pid) = Some NO_DELETE_PERMISSION \<and>
       polls (snd (deletePoll w pid)) = polls w \<and> votes (snd (deletePoll w pid)) = votes w \<and>
       polls (snd (updatePoll w pid fd)) = polls w \<and> votes (snd (updatePoll w pid fd)) = votes w \<and>
       (fd_get fd CSRF_FORM_FIELD = Some t \<and> validateCSRFToken w t \<and>
        checkPollInput (fd_get fd ''question'') (filter truthy (fd_getAll fd ''options'')) = None \<longrightarrow>
          fst (updatePoll w pid fd) = Some NO_UPDATE_PERMISSION)) \<and>
    (u_role u = Some ''admin'' \<or> p_user_id p = u_id u \<longrightarrow>
       (fault w VotesDelete = None \<and> fault w PollsDelete = None \<longrightarrow>
          fst (deletePoll w pid) = None \<and>
          polls (snd (deletePoll w pid)) = filter (\<lambda>p. p_id p \<noteq> pid) (polls w) \<and>
          votes (snd (deletePoll w pid)) = filter (\<lambda>v. v_poll_id v \<noteq> pid) (votes w)) \<and>
       (fd_get fd CSRF_FORM_FIELD = Some t \<and> validateCSRFToken w t \<and>
        checkPollInput (fd_get fd ''question'') (filter truthy (fd_getAll fd ''options'')) = None \<and>
        fault w PollsUpdate = None \<longrightarrow>
          fst (updatePoll w pid fd) = None \<and>
          polls (snd (updatePoll w pid fd)) =
            map (\<lambda>p. if p_id p = pid
                      then p\<lparr>p_question := trim (as_string (fd_get fd ''question'')),
                             p_options := map trim (filter truthy (fd_getAll fd ''options''))\<rparr>
                      else p) (polls w)))"
proof (intro conjI impI)
  assume na: "u_role u \<noteq> Some ''admin'' \<and> p_user_id p \<noteq> u_id u"
  show "fst (deletePoll w pid) = Some NO_DELETE_PERMISSION"
    using auth row na by (simp add: deletePoll_flat)
  show "polls (snd (deletePoll w pid)) = polls w"
    using auth row na by (simp add: deletePoll_flat)
  show "votes (snd (deletePoll w pid)) = votes w"
    using auth row na by (simp add: deletePoll_flat)
  show "polls (snd (updatePoll w pid fd)) = polls w"
    using auth row na by (simp add: updatePoll_flat split: option.splits)
  show "votes (snd (updatePoll w pid fd)) = votes w"
    using auth row na by (simp add: updatePoll_flat split: option.splits)
  assume "fd_get fd CSRF_FORM_FIELD = Some t \<and> validateCSRFToken w t \<and>
        checkPollInput (fd_get fd ''question'') (filter truthy (fd_getAll fd ''options'')) = None"
  then show "fst (updatePoll w pid fd) = Some NO_UPDATE_PERMISSION"
    using auth row na by (simp add: updatePoll_flat)
next
  assume ok: "u_role u = Some ''admin'' \<or> p_user_id p = u_id u"
    and st: "fault w VotesDelete = None \<and> fault w PollsDelete = None"
  show "fst (deletePoll w pid) = None"
    using auth row ok st by (auto simp: deletePoll_flat deleteRows_flat)
  show "polls (snd (deletePoll w pid)) = filter (\<lambda>p. p_id p \<noteq> pid) (polls w)"
    using auth row ok st by (auto simp: deletePoll_flat deleteRows_flat)
  show "votes (snd (deletePoll w pid)) = filter (\<lambda>v. v_poll_id v \<noteq> pid) (votes w)"
    using auth row ok st by (auto simp: deletePoll_flat deleteRows_flat)
next
  assume ok: "u_role u = Some ''admin'' \<or> p_user_id p = u_id u"
    and st: "fd_get fd CSRF_FORM_FIELD = Some t \<and> validateCSRFToken w t \<and>
        checkPollInput (fd_get fd ''question'') (filter truthy (fd_getAll fd ''options'')) = None \<and>
        fault w PollsUpdate = None"
  show "fst (updatePoll w pid fd) = None"
    using auth row ok st by (auto simp: updatePoll_flat)
  show "polls (snd (updatePoll w pid fd)) =
            map (\<lambda>p. if p_id p = pid
                      then p\<lparr>p_question := trim (as_string (fd_get fd ''question'')),
                             p_options := map trim (filter truthy (fd_getAll fd ''options''))\<rparr>
                      else p) (polls w)"
    using auth row ok st by (auto simp: updatePoll_flat)
qed

section \<open>Input validation\<close>

lemma trim_Nil [simp]: "trim [] = []"
  by (simp add: trim_def)

lemma checkOptions_None_iff:
  "checkOptions opts = None \<longleftrightarrow> (\<forall>x\<in>set opts. trim x \<noteq> [] \<and> length x \<le> 200)"
  by (induction opts) auto

lemma length_remdups_iff: "length (remdups xs) = length xs \<longleftrightarrow> distinct xs"
  by (metis distinct_remdups length_remdups_eq remdups_id_iff_distinct)

lemma checkPollInput_None_iff:
  "checkPollInput question opts = None \<longleftrightarrow>
     (\<exists>q. question = Some q \<and> trim q \<noteq> [] \<and> length q \<le> 500) \<and>
     2 \<le> length opts \<and> length opts \<le> 10 \<and>
     (\<forall>x\<in>set opts. trim x \<noteq> [] \<and> length x \<le> 200) \<and> distinct (map trim opts)"
proof (cases question)
  case None
  then show ?thesis by (simp add: checkPollInput_def)
next
  case (Some q)
  show ?thesis
  proof (cases "checkOptions opts")
    case None
    with Some show ?thesis
      using checkOptions_None_iff[of opts] length_remdups_iff[of "map trim opts"]
      by (auto simp: checkPollInput_def)
  next
    case (Some e)
    with \<open>question = Some q\<close> show ?thesis
      using checkOptions_None_iff[of opts]
      by (auto simp: checkPollInput_def)
  qed
qed

text \<open>
  Claim C5. With a valid token and an authenticated identity, over the options of the
  handler (the non-empty entries): one option fails, eleven options fail, a question of
  501 code units fails, two options equal after trimming fail, each with an error value
  and an unchanged world; two to ten valid options, distinct after trimming, with a
  valid question succeed and the poll row is appended.
\<close>

theorem createPoll_bounds:
  assumes tok: "fd_get fd CSRF_FORM_FIELD = Some t" "validateCSRFToken w t"
      and auth: "fault w AuthGetUser = None" "session w = Some u"
      and q: "question = fd_get fd ''question''"
      and o: "opts = filter truthy (fd_getAll fd ''options'')"
  shows
   "(length opts = 1 \<or> length opts = 11 \<or> (\<exists>s. question = Some s \<and> length s = 501) \<or>
     \<not> distinct (map trim opts)
       \<longrightarrow> (\<exists>e. createPoll w fd = (Some e, w))) \<and>
    ((\<exists>s. question = Some s \<and> trim s \<noteq> [] \<and> length s \<le> 500) \<and>
     2 \<le> length opts \<and> length opts \<le> 10 \<and>
     (\<forall>x\<in>set opts. trim x \<noteq> [] \<and> length x \<le> 200) \<and> distinct (map trim opts) \<and>
     fault w PollsInsert = None
       \<longrightarrow> fst (createPoll w fd) = None \<and>
           polls (snd (createPoll w fd)) =
             polls w @ [\<lparr>p_id = new_id w (inserted w), p_user_id = u_id u,
                         p_question = trim (as_string question),
                         p_options = map trim opts\<rparr>])"
proof (intro conjI impI)
  assume bad: "length opts = 1 \<or> length opts = 11 \<or> (\<exists>s. question = Some s \<and> length s = 501) \<or>
     \<not> distinct (map trim opts)"
  then have "checkPollInput question opts \<noteq> None"
    by (auto simp: checkPollInput_None_iff)
  then obtain e where "checkPollInput question opts = Some e" by auto
  with tok q o have "createPoll w fd = (Some e, w)"
    by (simp add: createPoll_flat)
  then show "\<exists>e. createPoll w fd = (Some e, w)" ..
next
  assume good: "(\<exists>s. question = Some s \<and> trim s \<noteq> [] \<and> length s \<le> 500) \<and>
     2 \<le> length opts \<and> length opts \<le> 10 \<and>
     (\<forall>x\<in>set opts. trim x \<noteq> [] \<and> length x \<le> 200) \<and> distinct (map trim opts) \<and>
     fault w PollsInsert = None"
  then have ok: "checkPollInput question opts = None"
    by (simp add: checkPollInput_None_iff)
  from good have ins: "fault w PollsInsert = None" by simp
  show "fst (createPoll w fd) = None"
    using tok auth q o ok ins by (simp add: createPoll_flat)
  show "polls (snd (createPoll w fd)) =
             polls w @ [\<lparr>p_id = new_id w (inserted w), p_user_id = u_id u,
                         p_question = trim (as_string question),
                         p_options = map trim opts\<rparr>]"
    using tok auth q o ok ins by (simp add: createPoll_flat)
qed

text \<open>
  submitVote keeps the invariant of the vote table, at most one row for each
  (poll_id, user_id) pair: the only row it adds is for a pair that had none.
\<close>

lemma submitVote_votes:
  "votes (snd (submitVote w pid i tok)) = votes w \<or>
   (\<exists>u. filter (\<lambda>v. v_poll_id v = pid \<and> v_user_id v = u) (votes w) = [] \<and>
        votes (snd (submitVote w pid i tok)) =
          votes w @ [\<lparr>v_poll_id = pid, v_user_id = u, v_option_index = i\<rparr>])"
  by (auto simp: submitVote_flat split: option.splits list.splits simp del: filter_False)

lemma submitVote_keeps_one_vote_per_pair:
  assumes inv: "\<forall>p u. length (filter (\<lambda>v. v_poll_id v = p \<and> v_user_id v = u) (votes w)) \<le> 1"
  shows "\<forall>p u. length (filter (\<lambda>v. v_poll_id v = p \<and> v_user_id v = u)
                     (votes (snd (submitVote w pid i tok)))) \<le> 1"
proof (intro allI)
  fix p u
  from submitVote_votes[of w pid i tok]
  show "length (filter (\<lambda>v. v_poll_id v = p \<and> v_user_id v = u)
                     (votes (snd (submitVote w pid i tok)))) \<le> 1"
  proof
    assume "votes (snd (submitVote w pid i tok)) = votes w"
    with inv show ?thesis by simp
  next
    assume "\<exists>u. filter (\<lambda>v. v_poll_id v = pid \<and> v_user_id v = u) (votes w) = [] \<and>
        votes (snd (submitVote w pid i tok)) =
          votes w @ [\<lparr>v_poll_id = pid, v_user_id = u, v_option_index = i\<rparr>]"
    then obtain u' where none: "filter (\<lambda>v. v_poll_id v = pid \<and> v_user_id v = u') (votes w) = []"
      and app: "votes (snd (submitVote w pid i tok)) =
          votes w @ [\<lparr>v_poll_id = pid, v_user_id = u', v_option_index = i\<rparr>]"
      by blast
    show ?thesis
    proof (cases "p = pid \<and> u = u'")
      case True
      with none app show ?thesis by simp
    next
      case False
      with app inv show ?thesis by auto
    qed
  qed
qed

text \<open>
  Claim C4. A vote submission by an authenticated identity on an existing poll, when the
  store does not fail and holds at most one vote row for the pair: it is rejected as
  already voted when a row for (poll_id, user_id) exists, rejected when option_index is
  at least the option count, rejected when option_index is negative, and otherwise the
  vote row is inserted; no row is inserted by a rejected submission.
\<close>

theorem submitVote_once_in_range:
  assumes tok: "\<forall>t. csrfToken = Some t \<and> t \<noteq> [] \<longrightarrow> validateCSRFToken w t"
      and auth: "fault w AuthGetUser = None" "session w = Some u"
      and store: "fault w VotesSelect = None" "fault w PollsSelect = None"
                 "fault w VotesInsert = None"
      and one: "length (filter (\<lambda>v. v_poll_id v = pid \<and> v_user_id v = u_id u) (votes w)) \<le> 1"
      and row: "filter (\<lambda>p. p_id p = pid) (polls w) = [p]"
  shows "fst (submitVote w pid i csrfToken) =
           (if \<exists>v\<in>set (votes w). v_poll_id v = pid \<and> v_user_id v = u_id u
            then Some ALREADY_VOTED
            else if i \<ge> int (length (p_options p)) then Some INVALID_OPTION
            else if i < 0 then Some INVALID_OPTION
            else None) \<and>
         votes (snd (submitVote w pid i csrfToken)) =
           (if fst (submitVote w pid i csrfToken) = None
            then votes w @ [\<lparr>v_poll_id = pid, v_user_id = u_id u, v_option_index = i\<rparr>]
            else votes w) \<and>
         polls (snd (submitVote w pid i csrfToken)) = polls w"
proof -
  let ?mine = "filter (\<lambda>v. v_poll_id v = pid \<and> v_user_id v = u_id u) (votes w)"
  have ex: "(\<exists>v\<in>set (votes w). v_poll_id v = pid \<and> v_user_id v = u_id u) \<longleftrightarrow> ?mine \<noteq> []"
    by (auto simp: filter_empty_conv)
  from tok have pass: "(\<exists>t. csrfToken = Some t \<and> t \<noteq> [] \<and> \<not> validateCSRFToken w t) = False"
    by auto
  show ?thesis
  proof (cases ?mine)
    case Nil
    with ex have nex: "\<not> (\<exists>v\<in>set (votes w). v_poll_id v = pid \<and> v_user_id v = u_id u)"
      by simp
    from auth store row Nil show ?thesis
      unfolding submitVote_flat by (simp add: pass nex del: filter_False)
  next
    case (Cons v vs)
    with one have "vs = []" by simp
    with Cons have mine: "?mine = [v]" by simp
    with ex have yes: "\<exists>v\<in>set (votes w). v_poll_id v = pid \<and> v_user_id v = u_id u"
      by simp
    from auth store row mine show ?thesis
      unfolding submitVote_flat by (simp add: pass yes)
  qed
qed

section \<open>Token enforcement and deletion order\<close>

lemma validateCSRFToken_cong:
  "cookieStore w' = cookieStore w \<Longrightarrow> sha256 w' = sha256 w \<Longrightarrow>
   validateCSRFToken w' t = validateCSRFToken w t"
  by (simp add: validateCSRFToken_def hashToken_def Let_def split: option.splits)

text \<open>
  Claim C6. createPoll and updatePoll answer with the invalid-security-token error, and do
  nothing else, whenever the token field is missing or does not validate. submitVote
  rejects a supplied non-empty token that does not validate, behaves with a valid token
  as with none, and with no token goes on to ask for the identity, whatever the cookie
  store holds. deletePoll has no token parameter and its run does not depend on the
  cookie store.
\<close>

theorem token_enforcement:
  "((fd_get fd CSRF_FORM_FIELD = None \<or>
     (\<exists>t. fd_get fd CSRF_FORM_FIELD = Some t \<and> \<not> validateCSRFToken w t)) \<longrightarrow>
      createPoll w fd = (Some INVALID_TOKEN, w) \<and>
      updatePoll w pid fd = (Some INVALID_TOKEN, w)) \<and>
   (t \<noteq> [] \<and> \<not> validateCSRFToken w t \<longrightarrow>
      submitVote w pid i (Some t) = (Some INVALID_TOKEN, w)) \<and>
   (validateCSRFToken w t \<longrightarrow> submitVote w pid i (Some t) = submitVote w pid i None) \<and>
   (\<exists>rest. trace (snd (submitVote w pid i None)) = trace w @ AuthGetUser # rest) \<and>
   submitVote (w\<lparr>cookieStore := c\<rparr>) pid i None =
     (fst (submitVote w pid i None), (snd (submitVote w pid i None))\<lparr>cookieStore := c\<rparr>) \<and>
   deletePoll (w\<lparr>cookieStore := c\<rparr>) pid =
     (fst (deletePoll w pid), (snd (deletePoll w pid))\<lparr>cookieStore := c\<rparr>)"
proof (intro conjI impI)
  assume "fd_get fd CSRF_FORM_FIELD = None \<or>
     (\<exists>t. fd_get fd CSRF_FORM_FIELD = Some t \<and> \<not> validateCSRFToken w t)"
  then have no: "\<not> (\<exists>t. fd_get fd CSRF_FORM_FIELD = Some t \<and> validateCSRFToken w t)"
    by auto
  show "createPoll w fd = (Some INVALID_TOKEN, w)"
    unfolding createPoll_flat using no by simp
  show "updatePoll w pid fd = (Some INVALID_TOKEN, w)"
    unfolding updatePoll_flat using no by simp
next
  assume "t \<noteq> [] \<and> \<not> validateCSRFToken w t"
  then show "submitVote w pid i (Some t) = (Some INVALID_TOKEN, w)"
    by (simp add: submitVote_flat)
next
  assume "validateCSRFToken w t"
  then show "submitVote w pid i (Some t) = submitVote w pid i None"
    by (simp add: submitVote_flat)
next
  show "\<exists>rest. trace (snd (submitVote w pid i None)) = trace w @ AuthGetUser # rest"
    by (simp add: submitVote_flat split: option.splits list.splits)
next
  show "submitVote (w\<lparr>cookieStore := c\<rparr>) pid i None =
     (fst (submitVote w pid i None), (snd (submitVote w pid i None))\<lparr>cookieStore := c\<rparr>)"
    by (simp add: submitVote_flat send_def split: option.splits list.splits)
next
  show "deletePoll (w\<lparr>cookieStore := c\<rparr>) pid =
     (fst (deletePoll w pid), (snd (deletePoll w pid))\<lparr>cookieStore := c\<rparr>)"
    by (simp add: deletePoll_flat deleteRows_flat send_def revalidatePath_def
        split: option.splits list.splits)
qed

text \<open>
  Claim C8. A successful deletePoll run sends the deletion of the votes of the poll
  before the deletion of the poll row; when the deletion of the votes fails, the poll
  table is unchanged, no poll deletion is sent, and the run that reached the vote
  deletion returns that error.
\<close>

theorem deletePoll_votes_first:
  "(fst (deletePoll w pid) = None \<longrightarrow>
      (trace (snd (deletePoll w pid)) = trace w @ [AuthGetUser, VotesDelete, PollsDelete] \<or>
       trace (snd (deletePoll w pid)) =
         trace w @ [AuthGetUser, PollsSelect, VotesDelete, PollsDelete]) \<and>
      votes (snd (deletePoll w pid)) = filter (\<lambda>v. v_poll_id v \<noteq> pid) (votes w) \<and>
      polls (snd (deletePoll w pid)) = filter (\<lambda>p. p_id p \<noteq> pid) (polls w)) \<and>
   (fault w VotesDelete = Some m \<longrightarrow>
      polls (snd (deletePoll w pid)) = polls w \<and>
      PollsDelete \<notin> set (drop (length (trace w)) (trace (snd (deletePoll w pid)))) \<and>
      (VotesDelete \<in> set (drop (length (trace w)) (trace (snd (deletePoll w pid)))) \<longrightarrow>
         fst (deletePoll w pid) = Some m))"
proof (intro conjI impI)
  assume ok: "fst (deletePoll w pid) = None"
  show "trace (snd (deletePoll w pid)) = trace w @ [AuthGetUser, VotesDelete, PollsDelete] \<or>
       trace (snd (deletePoll w pid)) =
         trace w @ [AuthGetUser, PollsSelect, VotesDelete, PollsDelete]"
    using ok by (auto simp: deletePoll_flat deleteRows_flat split: option.splits list.splits if_splits)
  show "votes (snd (deletePoll w pid)) = filter (\<lambda>v. v_poll_id v \<noteq> pid) (votes w)"
    using ok by (auto simp: deletePoll_flat deleteRows_flat split: option.splits list.splits if_splits)
  show "polls (snd (deletePoll w pid)) = filter (\<lambda>p. p_id p \<noteq> pid) (polls w)"
    using ok by (auto simp: deletePoll_flat deleteRows_flat split: option.splits list.splits if_splits)
next
  assume f: "fault w VotesDelete = Some m"
  show "polls (snd (deletePoll w pid)) = polls w"
    using f by (simp add: deletePoll_flat deleteRows_flat split: option.splits list.splits)
  show "PollsDelete \<notin> set (drop (length (trace w)) (trace (snd (deletePoll w pid))))"
    using f by (simp add: deletePoll_flat deleteRows_flat split: option.splits list.splits)
  assume "VotesDelete \<in> set (drop (length (trace w)) (trace (snd (deletePoll w pid))))"
  then show "fst (deletePoll w pid) = Some m"
    using f by (simp add: deletePoll_flat deleteRows_flat split: option.splits list.splits if_splits)
qed

section \<open>The order of the validation rules\<close>

lemma checkOptions_find:
  "checkOptions opts =
     (case find (\<lambda>x. trim x = [] \<or> length x > 200) opts of
        Some x \<Rightarrow> if trim x = [] then Some EMPTY_OPTION else Some OPTION_TOO_LONG
      | None \<Rightarrow> None)"
  by (induction opts) auto

lemma checkPollInput_amended: "checkPollInput question opts = amended_rule_order question opts"
proof (cases question)
  case None
  then show ?thesis by (simp add: checkPollInput_def amended_rule_order_def)
next
  case (Some q)
  then show ?thesis
    using length_remdups_iff[of "map trim opts"]
    by (auto simp: checkPollInput_def amended_rule_order_def checkOptions_find as_string_def
        split: option.splits)
qed

text \<open>
  Claim C7, amended. A submission to createPoll or updatePoll that passes the token check
  and breaks some rule gets the single error of this order: missing or blank question,
  question longer than 500, fewer than 2 options, more than 10 options, then the first
  option in submission order that is blank after trimming or longer than 200 (reported
  as empty when blank, as too long otherwise), then duplicates after trimming.
\<close>

theorem rule_order_first_offending_option:
  assumes tok: "fd_get fd CSRF_FORM_FIELD = Some t" "validateCSRFToken w t"
      and bad: "amended_rule_order (fd_get fd ''question'')
                  (filter truthy (fd_getAll fd ''options'')) = Some e"
  shows "createPoll w fd = (Some e, w) \<and> updatePoll w pid fd = (Some e, w)"
proof -
  from bad have c: "checkPollInput (fd_get fd ''question'')
                  (filter truthy (fd_getAll fd ''options'')) = Some e"
    by (simp add: checkPollInput_amended)
  have "createPoll w fd = (Some e, w)"
    unfolding createPoll_flat using tok c by simp
  moreover have "updatePoll w pid fd = (Some e, w)"
    unfolding updatePoll_flat using tok c by simp
  ultimately show ?thesis by simp
qed

lemma fd_get_strip:
  "name \<noteq> ''options'' \<Longrightarrow> fd_get (strip_empty_options fd) name = fd_get fd name"
  by (induction fd) (auto simp: fd_get_def strip_empty_options_def)

lemma fd_getAll_strip:
  "filter truthy (fd_getAll (strip_empty_options fd) ''options'') =
   filter truthy (fd_getAll fd ''options'')"
  by (induction fd) (auto simp: fd_getAll_def strip_empty_options_def truthy_def)

lemma checkOptions_not_empty_error:
  "\<forall>x\<in>set opts. trim x \<noteq> [] \<Longrightarrow> checkOptions opts \<noteq> Some EMPTY_OPTION"
  by (induction opts) (auto simp: EMPTY_OPTION_def OPTION_TOO_LONG_def)

lemma checkPollInput_not_empty_error:
  "\<forall>x\<in>set opts. trim x \<noteq> [] \<Longrightarrow> checkPollInput question opts \<noteq> Some EMPTY_OPTION"
  using checkOptions_not_empty_error[of opts]
  by (auto simp: checkPollInput_def split: option.splits)
     (simp_all add: EMPTY_OPTION_def INVALID_QUESTION_def QUESTION_TOO_LONG_def
        TOO_FEW_OPTIONS_def TOO_MANY_OPTIONS_def DUPLICATE_OPTIONS_def)

section \<open>Empty options, raw lengths and trimmed storage\<close>

text \<open>
  Claim C9. Both handlers drop the option entries that are the empty string before any
  validation: a submission gives the same result as the one without those entries; when
  no option is non-empty and blank after trimming, the error is not the empty-option
  error (the store's own messages apart); and two valid options, with any number of
  empty-string entries around them, succeed and only the two trimmed options are stored.
\<close>

theorem empty_string_options_dropped:
  "createPoll w fd = createPoll w (strip_empty_options fd) \<and>
   updatePoll w pid fd = updatePoll w pid (strip_empty_options fd) \<and>
   ((\<forall>x\<in>set (fd_getAll fd ''options''). x \<noteq> [] \<longrightarrow> trim x \<noteq> []) \<and>
    (\<forall>r. fault w r \<noteq> Some EMPTY_OPTION) \<longrightarrow>
      fst (createPoll w fd) \<noteq> Some EMPTY_OPTION \<and>
      fst (updatePoll w pid fd) \<noteq> Some EMPTY_OPTION) \<and>
   (fd_get fd CSRF_FORM_FIELD = Some t \<and> validateCSRFToken w t \<and>
    fd_get fd ''question'' = Some q \<and> trim q \<noteq> [] \<and> length q \<le> 500 \<and>
    filter truthy (fd_getAll fd ''options'') = [a, b] \<and>
    trim a \<noteq> [] \<and> length a \<le> 200 \<and> trim b \<noteq> [] \<and> length b \<le> 200 \<and> trim a \<noteq> trim b \<and>
    fault w AuthGetUser = None \<and> session w = Some u \<longrightarrow>
      (fault w PollsInsert = None \<longrightarrow>
         fst (createPoll w fd) = None \<and>
         polls (snd (createPoll w fd)) =
           polls w @ [\<lparr>p_id = new_id w (inserted w), p_user_id = u_id u,
                       p_question = trim q, p_options = [trim a, trim b]\<rparr>]) \<and>
      (fault w PollsSelect = None \<and> filter (\<lambda>p. p_id p = pid) (polls w) = [p] \<and>
       (u_role u = Some ''admin'' \<or> p_user_id p = u_id u) \<and> fault w PollsUpdate = None \<longrightarrow>
         fst (updatePoll w pid fd) = None \<and>
         polls (snd (updatePoll w pid fd)) =
           map (\<lambda>p. if p_id p = pid
                     then p\<lparr>p_question := trim q, p_options := [trim a, trim b]\<rparr>
                     else p) (polls w)))"
proof (intro conjI impI)
  have g: "fd_get (strip_empty_options fd) CSRF_FORM_FIELD = fd_get fd CSRF_FORM_FIELD"
    "fd_get (strip_empty_options fd) ''question'' = fd_get fd ''question''"
    by (simp_all add: fd_get_strip CSRF_FORM_FIELD_def)
  show "createPoll w fd = createPoll w (strip_empty_options fd)"
    by (simp only: createPoll_flat g fd_getAll_strip)
  show "updatePoll w pid fd = updatePoll w pid (strip_empty_options fd)"
    by (simp only: updatePoll_flat g fd_getAll_strip)
next
  assume h: "(\<forall>x\<in>set (fd_getAll fd ''options''). x \<noteq> [] \<longrightarrow> trim x \<noteq> []) \<and>
    (\<forall>r. fault w r \<noteq> Some EMPTY_OPTION)"
  then have "\<forall>x\<in>set (filter truthy (fd_getAll fd ''options'')). trim x \<noteq> []"
    by (simp add: truthy_def)
  then have c: "checkPollInput (fd_get fd ''question'') (filter truthy (fd_getAll fd ''options''))
                 \<noteq> Some EMPTY_OPTION"
    by (rule checkPollInput_not_empty_error)
  from h have f: "fault w r \<noteq> Some EMPTY_OPTION" for r by simp
  have m: "INVALID_TOKEN \<noteq> EMPTY_OPTION" "LOGIN_TO_CREATE \<noteq> EMPTY_OPTION"
    "LOGIN_TO_UPDATE \<noteq> EMPTY_OPTION" "NO_UPDATE_PERMISSION \<noteq> EMPTY_OPTION"
    "ROWS_ERROR \<noteq> EMPTY_OPTION"
    by (simp_all add: INVALID_TOKEN_def LOGIN_TO_CREATE_def LOGIN_TO_UPDATE_def
          NO_UPDATE_PERMISSION_def ROWS_ERROR_def EMPTY_OPTION_def)
  show "fst (createPoll w fd) \<noteq> Some EMPTY_OPTION"
    using c f m by (auto simp: createPoll_flat split: option.splits)
  show "fst (updatePoll w pid fd) \<noteq> Some EMPTY_OPTION"
    using c f m by (auto simp: updatePoll_flat split: option.splits list.splits if_splits)
next
  assume h: "fd_get fd CSRF_FORM_FIELD = Some t \<and> validateCSRFToken w t \<and>
    fd_get fd ''question'' = Some q \<and> trim q \<noteq> [] \<and> length q \<le> 500 \<and>
    filter truthy (fd_getAll fd ''options'') = [a, b] \<and>
    trim a \<noteq> [] \<and> length a \<le> 200 \<and> trim b \<noteq> [] \<and> length b \<le> 200 \<and> trim a \<noteq> trim b \<and>
    fault w AuthGetUser = None \<and> session w = Some u"
  then have o: "filter truthy (fd_getAll fd ''options'') = [a, b]"
    by simp
  from h have c: "checkPollInput (fd_get fd ''question'') [a, b] = None"
    by (simp add: checkPollInput_None_iff)
  {
    assume i: "fault w PollsInsert = None"
    show "fst (createPoll w fd) = None"
      using h i c by (simp add: createPoll_flat o)
    show "polls (snd (createPoll w fd)) =
           polls w @ [\<lparr>p_id = new_id w (inserted w), p_user_id = u_id u,
                       p_question = trim q, p_options = [trim a, trim b]\<rparr>]"
      using h i c by (simp add: createPoll_flat o as_string_def)
  }
  {
    assume i: "fault w PollsSelect = None \<and> filter (\<lambda>p. p_id p = pid) (polls w) = [p] \<and>
       (u_role u = Some ''admin'' \<or> p_user_id p = u_id u) \<and> fault w PollsUpdate = None"
    show "fst (updatePoll w pid fd) = None"
      using h i c by (auto simp: updatePoll_flat o)
    show "polls (snd (updatePoll w pid fd)) =
           map (\<lambda>p. if p_id p = pid
                     then p\<lparr>p_question := trim q, p_options := [trim a, trim b]\<rparr>
                     else p) (polls w)"
      using h i c by (auto simp: updatePoll_flat o as_string_def)
  }
qed

lemma checkPollInput_long_question:
  "length q > 500 \<Longrightarrow> checkPollInput (Some q) opts =
     Some (if trim q = [] then INVALID_QUESTION else QUESTION_TOO_LONG)"
  by (auto simp: checkPollInput_def)

lemma handlers_reject_invalid_input:
  assumes "checkPollInput (fd_get fd ''question'') (filter truthy (fd_getAll fd ''options'')) \<noteq> None"
  shows "(\<exists>e. createPoll w fd = (Some e, w)) \<and> (\<exists>e. updatePoll w pid fd = (Some e, w))"
  using assms by (auto simp: createPoll_flat updatePoll_flat)

text \<open>
  Claim C10. The length limits are checked on the input as submitted: a question longer
  than 500 code units and an option longer than 200 code units are rejected whatever
  their trimmed lengths are (a non-blank question that long with the question-too-long
  error, once the token has passed). What a successful createPoll or updatePoll stores
  is the trimmed question and the trimmed options.
\<close>

theorem raw_length_checked_trimmed_stored:
  "(fd_get fd ''question'' = Some q \<and> length q > 500 \<longrightarrow>
      (\<exists>e. createPoll w fd = (Some e, w)) \<and> (\<exists>e. updatePoll w pid fd = (Some e, w)) \<and>
      (fd_get fd CSRF_FORM_FIELD = Some t \<and> validateCSRFToken w t \<and> trim q \<noteq> [] \<longrightarrow>
         createPoll w fd = (Some QUESTION_TOO_LONG, w) \<and>
         updatePoll w pid fd = (Some QUESTION_TOO_LONG, w))) \<and>
   (x \<in> set (fd_getAll fd ''options'') \<and> length x > 200 \<longrightarrow>
      (\<exists>e. createPoll w fd = (Some e, w)) \<and> (\<exists>e. updatePoll w pid fd = (Some e, w))) \<and>
   (fst (createPoll w fd) = None \<longrightarrow>
      (\<exists>q u. fd_get fd ''question'' = Some q \<and> session w = Some u \<and>
         polls (snd (createPoll w fd)) =
           polls w @ [\<lparr>p_id = new_id w (inserted w), p_user_id = u_id u,
                       p_question = trim q,
                       p_options = map trim (filter truthy (fd_getAll fd ''options''))\<rparr>])) \<and>
   (fst (updatePoll w pid fd) = None \<longrightarrow>
      (\<exists>q. fd_get fd ''question'' = Some q \<and>
         polls (snd (updatePoll w pid fd)) =
           map (\<lambda>p. if p_id p = pid
                     then p\<lparr>p_question := trim q,
                            p_options := map trim (filter truthy (fd_getAll fd ''options''))\<rparr>
                     else p) (polls w)))"
proof (intro conjI impI)
  assume h: "fd_get fd ''question'' = Some q \<and> length q > 500"
  then have c: "checkPollInput (fd_get fd ''question'') (filter truthy (fd_getAll fd ''options''))
      = Some (if trim q = [] then INVALID_QUESTION else QUESTION_TOO_LONG)"
    by (simp add: checkPollInput_long_question)
  then have n: "checkPollInput (fd_get fd ''question'') (filter truthy (fd_getAll fd ''options''))
      \<noteq> None" by simp
  from handlers_reject_invalid_input[OF n]
  show "\<exists>e. createPoll w fd = (Some e, w)" and "\<exists>e. updatePoll w pid fd = (Some e, w)"
    by blast+
  assume k: "fd_get fd CSRF_FORM_FIELD = Some t \<and> validateCSRFToken w t \<and> trim q \<noteq> []"
  show "createPoll w fd = (Some QUESTION_TOO_LONG, w)"
    unfolding createPoll_flat using k c by simp
  show "updatePoll w pid fd = (Some QUESTION_TOO_LONG, w)"
    unfolding updatePoll_flat using k c by simp
next
  assume h: "x \<in> set (fd_getAll fd ''options'') \<and> length x > 200"
  then have "x \<in> set (filter truthy (fd_getAll fd ''options''))"
    by (auto simp: truthy_def)
  with h have n: "checkPollInput (fd_get fd ''question'') (filter truthy (fd_getAll fd ''options''))
      \<noteq> None"
    by (auto simp: checkPollInput_None_iff)
  from handlers_reject_invalid_input[OF n]
  show "\<exists>e. createPoll w fd = (Some e, w)" and "\<exists>e. updatePoll w pid fd = (Some e, w)"
    by blast+
next
  assume s: "fst (createPoll w fd) = None"
  then have c: "checkPollInput (fd_get fd ''question'') (filter truthy (fd_getAll fd ''options''))
      = None"
    by (auto simp: createPoll_flat split: if_splits option.splits)
  then obtain q where q: "fd_get fd ''question'' = Some q"
    by (auto simp: checkPollInput_None_iff)
  from s obtain u where u: "session w = Some u"
    by (auto simp: createPoll_flat split: if_splits option.splits)
  from s have "polls (snd (createPoll w fd)) =
           polls w @ [\<lparr>p_id = new_id w (inserted w), p_user_id = u_id u,
                       p_question = trim q,
                       p_options = map trim (filter truthy (fd_getAll fd ''options''))\<rparr>]"
    using q u by (auto simp: createPoll_flat as_string_def split: if_splits option.splits)
  with q u show "\<exists>q u. fd_get fd ''question'' = Some q \<and> session w = Some u \<and>
         polls (snd (createPoll w fd)) =
           polls w @ [\<lparr>p_id = new_id w (inserted w), p_user_id = u_id u,
                       p_question = trim q,
                       p_options = map trim (filter truthy (fd_getAll fd ''options''))\<rparr>]"
    by blast
next
  assume s: "fst (updatePoll w pid fd) = None"
  then have c: "checkPollInput (fd_get fd ''question'') (filter truthy (fd_getAll fd ''options''))
      = None"
    by (auto simp: updatePoll_flat split: if_splits option.splits)
  then obtain q where q: "fd_get fd ''question'' = Some q"
    by (auto simp: checkPollInput_None_iff)
  from s have "polls (snd (updatePoll w pid fd)) =
           map (\<lambda>p. if p_id p = pid
                     then p\<lparr>p_question := trim q,
                            p_options := map trim (filter truthy (fd_getAll fd ''options''))\<rparr>
                     else p) (polls w)"
    using q by (auto simp: updatePoll_flat as_string_def split: if_splits option.splits list.splits)
  with q show "\<exists>q. fd_get fd ''question'' = Some q \<and>
         polls (snd (updatePoll w pid fd)) =
           map (\<lambda>p. if p_id p = pid
                     then p\<lparr>p_question := trim q,
                            p_options := map trim (filter truthy (fd_getAll fd ''options''))\<rparr>
                     else p) (polls w)"
    by blast
qed

section \<open>The examples\<close>

lemma setCSRFToken_validates:
  assumes "entropy w (drawn w) \<noteq> []" and "sha256 w (toHex (entropy w (drawn w))) \<noteq> []"
  shows "validateCSRFToken (snd (setCSRFToken w)) (fst (setCSRFToken w))"
  using assms
  by (simp add: setCSRFToken_eq validateCSRFToken_def Let_def hashToken_def toHex_Nil_iff)

lemma toy_sha256_not_Nil: "toy_sha256 t \<noteq> []"
  using length_toy_sha256[of t] by auto

lemma world1_validates: "validateCSRFToken world1 secret1"
  unfolding world1_def secret1_def
  by (rule setCSRFToken_validates) (simp_all add: world0_def toy_sha256_not_Nil)

lemma world_as_simps:
  "fault (world_as u) r = None"
  "session (world_as u) = Some u"
  "polls (world_as u) = [poll_b]"
  "votes (world_as u) = [vote_b]"
  "trace (world_as u) = []"
  by (simp_all add: world_as_def world1_def setCSRFToken_eq world0_def)

lemma world_as_validates: "validateCSRFToken (world_as u) secret1"
proof -
  have "validateCSRFToken (world_as u) secret1 = validateCSRFToken world1 secret1"
    by (rule validateCSRFToken_cong) (simp_all add: world_as_def)
  then show ?thesis by (simp add: world1_validates)
qed

lemma form_ok_simps:
  "fd_get form_ok CSRF_FORM_FIELD = Some secret1"
  "fd_get form_ok ''question'' = Some (ascii ''Tea? '')"
  "fd_getAll form_ok ''options'' = [tea, [], coffee_padded]"
  by (simp_all add: form_ok_def fd_get_def fd_getAll_def CSRF_FORM_FIELD_def)

lemma form_ok_options: "filter truthy (fd_getAll form_ok ''options'') = [tea, coffee_padded]"
  apply (simp add: form_ok_def fd_getAll_def)
  apply (simp add: truthy_def)
  apply (simp add: tea_def coffee_padded_def ascii_def)
  done

lemma trim_examples:
  "trim tea = tea" "trim coffee_padded = ascii ''coffee''" "trim (ascii ''Tea? '') = ascii ''Tea?''"
  "trim blank_option = []" "trim (ascii ''Q?'') = ascii ''Q?''"
  by (simp_all add: trim_def tea_def coffee_padded_def blank_option_def ascii_def isWhiteSpace_def)

lemma form_ok_valid:
  "checkPollInput (fd_get form_ok ''question'') (filter truthy (fd_getAll form_ok ''options''))
     = None"
  by (simp add: form_ok_simps(2) form_ok_options checkPollInput_None_iff trim_examples)
     (simp add: tea_def coffee_padded_def ascii_def)

text \<open>
  The authorization check on the poll of bob: alice is refused, bob and the admin pass.
\<close>

theorem owner_or_admin_gate_witness:
  "fst (deletePoll (world_as alice) ''p1'') = Some NO_DELETE_PERMISSION \<and>
   polls (snd (deletePoll (world_as alice) ''p1'')) = [poll_b] \<and>
   fst (updatePoll (world_as alice) ''p1'' form_ok) = Some NO_UPDATE_PERMISSION \<and>
   fst (deletePoll (world_as bob) ''p1'') = None \<and>
   polls (snd (deletePoll (world_as bob) ''p1'')) = [] \<and>
   fst (updatePoll (world_as bob) ''p1'' form_ok) = None \<and>
   fst (deletePoll (world_as root) ''p1'') = None \<and>
   votes (snd (deletePoll (world_as root) ''p1'')) = [] \<and>
   fst (updatePoll (world_as root) ''p1'' form_ok) = None"
proof -
  have row: "filter (\<lambda>p. p_id p = ''p1'') (polls (world_as u)) = [poll_b]" for u
    by (simp add: world_as_simps poll_b_def)
  note a = owner_or_admin_gate [of "world_as alice" alice "''p1''" poll_b form_ok secret1,
      OF world_as_simps(1) world_as_simps(2) world_as_simps(1) row]
  note b = owner_or_admin_gate [of "world_as bob" bob "''p1''" poll_b form_ok secret1,
      OF world_as_simps(1) world_as_simps(2) world_as_simps(1) row]
  note c = owner_or_admin_gate [of "world_as root" root "''p1''" poll_b form_ok secret1,
      OF world_as_simps(1) world_as_simps(2) world_as_simps(1) row]
  have who: "u_role alice \<noteq> Some ''admin''" "p_user_id poll_b \<noteq> u_id alice"
    "p_user_id poll_b = u_id bob" "u_role root = Some ''admin''"
    by (simp_all add: alice_def bob_def root_def poll_b_def)
  have del: "filter (\<lambda>p. p_id p \<noteq> ''p1'') [poll_b] = []"
    "filter (\<lambda>v. v_poll_id v \<noteq> ''p1'') [vote_b] = []"
    by (simp_all add: poll_b_def vote_b_def)
  show ?thesis
    using a b c who del
    by (simp add: world_as_simps world_as_validates form_ok_simps(1) form_ok_valid)
qed


lemma trim_eq_Nil_iff: "trim s = [] \<longleftrightarrow> (\<forall>c\<in>set s. isWhiteSpace c)"
proof -
  let ?d = "dropWhile isWhiteSpace s"
  have a: "trim s = [] \<longleftrightarrow> (\<forall>c\<in>set ?d. isWhiteSpace c)"
    by (simp add: trim_def dropWhile_eq_Nil_conv)
  have b: "(\<forall>c\<in>set ?d. isWhiteSpace c) \<longleftrightarrow> ?d = []"
  proof
    assume all: "\<forall>c\<in>set ?d. isWhiteSpace c"
    show "?d = []"
    proof (cases ?d)
      case Nil
      then show ?thesis .
    next
      case (Cons x xs)
      then have "?d \<noteq> []" by simp
      then have "\<not> isWhiteSpace (hd ?d)" by (rule hd_dropWhile)
      moreover have "hd ?d \<in> set ?d" using Cons by simp
      ultimately show ?thesis using all by blast
    qed
  next
    assume "?d = []"
    then show "\<forall>c\<in>set ?d. isWhiteSpace c" by (simp del: dropWhile_eq_Nil_conv)
  qed
  have c: "?d = [] \<longleftrightarrow> (\<forall>c\<in>set s. isWhiteSpace c)"
    by (simp add: dropWhile_eq_Nil_conv)
  from a b c show ?thesis by simp
qed

lemma long_option_simps:
  "length long_option = 201" "trim long_option \<noteq> []" "long_option \<noteq> []"
  by (simp_all add: long_option_def trim_eq_Nil_iff isWhiteSpace_def)

lemma padded_question_simps:
  "length padded_question = 501" "trim padded_question = [0x51]"
  by (simp_all add: padded_question_def trim_def isWhiteSpace_def dropWhile_append3)

lemma form_long_blank_simps:
  "fd_get form_long_blank CSRF_FORM_FIELD = Some secret1"
  "fd_get form_long_blank ''question'' = Some (ascii ''Q?'')"
  "fd_getAll form_long_blank ''options'' = [long_option, blank_option]"
  by (simp_all add: form_long_blank_def fd_get_def fd_getAll_def CSRF_FORM_FIELD_def)

lemma blank_option_not_Nil: "blank_option \<noteq> []"
  by (simp add: blank_option_def ascii_def)

lemma form_long_blank_options:
  "filter truthy (fd_getAll form_long_blank ''options'') = [long_option, blank_option]"
  by (simp add: form_long_blank_simps(3) truthy_def long_option_simps blank_option_not_Nil)

lemma form_long_blank_check:
  "checkPollInput (fd_get form_long_blank ''question'')
     (filter truthy (fd_getAll form_long_blank ''options'')) = Some OPTION_TOO_LONG"
  by (simp add: form_long_blank_simps(2) form_long_blank_options checkPollInput_def
        trim_examples long_option_simps)
     (simp add: ascii_def)

text \<open>
  Claim C7 as stated fails on a first option of 201 code units followed by a blank one:
  the stated order reports the empty option, the handlers report the option that is
  too long.
\<close>

theorem stated_rule_order_counterexample:
  "createPoll (world_as alice) form_long_blank = (Some OPTION_TOO_LONG, world_as alice) \<and>
   updatePoll (world_as alice) ''p1'' form_long_blank = (Some OPTION_TOO_LONG, world_as alice) \<and>
   stated_rule_order (fd_get form_long_blank ''question'')
     (filter truthy (fd_getAll form_long_blank ''options'')) = Some EMPTY_OPTION \<and>
   OPTION_TOO_LONG \<noteq> EMPTY_OPTION"
proof (intro conjI)
  show "createPoll (world_as alice) form_long_blank = (Some OPTION_TOO_LONG, world_as alice)"
    by (simp add: createPoll_flat form_long_blank_simps(1) world_as_validates
          form_long_blank_check)
  show "updatePoll (world_as alice) ''p1'' form_long_blank
          = (Some OPTION_TOO_LONG, world_as alice)"
    by (simp add: updatePoll_flat form_long_blank_simps(1) world_as_validates
          form_long_blank_check)
  show "stated_rule_order (fd_get form_long_blank ''question'')
     (filter truthy (fd_getAll form_long_blank ''options'')) = Some EMPTY_OPTION"
    by (simp add: form_long_blank_simps(2) form_long_blank_options stated_rule_order_def
          trim_examples long_option_simps as_string_def)
       (simp add: ascii_def)
  show "OPTION_TOO_LONG \<noteq> EMPTY_OPTION"
    by (simp add: OPTION_TOO_LONG_def EMPTY_OPTION_def)
qed

theorem rule_order_first_offending_option_witness:
  "createPoll (world_as alice) form_long_blank = (Some OPTION_TOO_LONG, world_as alice) \<and>
   updatePoll (world_as alice) ''p1'' form_long_blank = (Some OPTION_TOO_LONG, world_as alice)"
proof -
  have bad: "amended_rule_order (fd_get form_long_blank ''question'')
               (filter truthy (fd_getAll form_long_blank ''options'')) = Some OPTION_TOO_LONG"
    by (simp add: form_long_blank_simps(2) form_long_blank_options amended_rule_order_def
          trim_examples long_option_simps as_string_def)
       (simp add: ascii_def)
  show ?thesis
    using rule_order_first_offending_option
      [OF form_long_blank_simps(1) world_as_validates bad, of alice "''p1''"]
    by simp
qed

lemma form_one_option_simps:
  "fd_get form_one_option CSRF_FORM_FIELD = Some secret1"
  "fd_get form_one_option ''question'' = Some (ascii ''Q?'')"
  "fd_getAll form_one_option ''options'' = [tea]"
  by (simp_all add: form_one_option_def fd_get_def fd_getAll_def CSRF_FORM_FIELD_def)

lemma tea_not_Nil: "tea \<noteq> []"
  by (simp add: tea_def ascii_def)

lemma form_one_option_options: "filter truthy (fd_getAll form_one_option ''options'') = [tea]"
  by (simp add: form_one_option_simps(3) truthy_def tea_not_Nil)

lemma example_options_valid:
  "trim tea \<noteq> []" "length tea \<le> 200" "trim coffee_padded \<noteq> []" "length coffee_padded \<le> 200"
  "trim tea \<noteq> trim coffee_padded" "trim (ascii ''Tea? '') \<noteq> []" "length (ascii ''Tea? '') \<le> 500"
  by (simp_all add: trim_examples) (simp_all add: tea_def coffee_padded_def ascii_def)

theorem submitVote_once_in_range_witness:
  "fst (submitVote (world_as alice) ''p1'' 1 None) = None \<and>
   votes (snd (submitVote (world_as alice) ''p1'' 1 None)) =
     [vote_b, \<lparr>v_poll_id = ''p1'', v_user_id = ''alice'', v_option_index = 1\<rparr>] \<and>
   fst (submitVote (world_as bob) ''p1'' 0 (Some secret1)) = Some ALREADY_VOTED \<and>
   votes (snd (submitVote (world_as bob) ''p1'' 0 (Some secret1))) = [vote_b] \<and>
   fst (submitVote (world_as alice) ''p1'' 2 None) = Some INVALID_OPTION \<and>
   fst (submitVote (world_as alice) ''p1'' (- 1) None) = Some INVALID_OPTION"
proof -
  have tokN: "\<forall>t. (None :: jsstring option) = Some t \<and> t \<noteq> [] \<longrightarrow>
                validateCSRFToken (world_as alice) t"
    by simp
  have tokS: "\<forall>t. Some secret1 = Some t \<and> t \<noteq> [] \<longrightarrow> validateCSRFToken (world_as bob) t"
    by (simp add: world_as_validates)
  have one: "length (filter (\<lambda>v. v_poll_id v = ''p1'' \<and> v_user_id v = u_id u)
                      (votes (world_as u))) \<le> 1" for u
    by (simp add: world_as_simps)
  have row: "filter (\<lambda>p. p_id p = ''p1'') (polls (world_as u)) = [poll_b]" for u
    by (simp add: world_as_simps poll_b_def)
  note a = submitVote_once_in_range [OF tokN world_as_simps(1) world_as_simps(2)
      world_as_simps(1) world_as_simps(1) world_as_simps(1) one row]
  note b = submitVote_once_in_range [OF tokS world_as_simps(1) world_as_simps(2)
      world_as_simps(1) world_as_simps(1) world_as_simps(1) one row, of 0]
  have who: "u_id alice = ''alice''" "u_id bob = ''bob''" "v_poll_id vote_b = ''p1''"
    "v_user_id vote_b = ''bob''" "length (p_options poll_b) = 2"
    by (simp_all add: alice_def bob_def vote_b_def poll_b_def)
  show ?thesis
    using a [of 1] a [of 2] a [of "- 1"] b
    by (simp add: world_as_simps who)
qed

theorem createPoll_bounds_witness:
  "(\<exists>e. createPoll (world_as alice) form_one_option = (Some e, world_as alice)) \<and>
   fst (createPoll (world_as alice) form_ok) = None \<and>
   polls (snd (createPoll (world_as alice) form_ok)) =
     [poll_b, \<lparr>p_id = ''p'', p_user_id = ''alice'', p_question = ascii ''Tea?'',
               p_options = [ascii ''tea'', ascii ''coffee'']\<rparr>]"
proof -
  note a = createPoll_bounds [OF form_one_option_simps(1) world_as_validates
      world_as_simps(1) world_as_simps(2) refl refl, of alice]
  note b = createPoll_bounds [OF form_ok_simps(1) world_as_validates
      world_as_simps(1) world_as_simps(2) refl refl, of alice]
  have ids: "new_id (world_as alice) (inserted (world_as alice)) = ''p''"
    "u_id alice = ''alice''"
    by (simp_all add: world_as_def world1_def setCSRFToken_eq world0_def alice_def)
  show ?thesis
    using a b
    by (simp add: form_one_option_options form_ok_options form_ok_simps(2)
          example_options_valid world_as_simps ids as_string_def trim_examples)
       (simp add: tea_def ascii_def)
qed


lemma world0_no_cookie: "cookieStore world0 CSRF_COOKIE_NAME = None"
  by (simp add: world0_def)

lemma world0_rejects: "\<not> validateCSRFToken world0 t"
  by (simp add: validateCSRFToken_def world0_no_cookie)

theorem token_enforcement_witness:
  "createPoll (world_as alice) [] = (Some INVALID_TOKEN, world_as alice) \<and>
   updatePoll (world_as alice) ''p1'' [] = (Some INVALID_TOKEN, world_as alice) \<and>
   submitVote world0 ''p1'' 0 (Some tea) = (Some INVALID_TOKEN, world0) \<and>
   submitVote (world_as alice) ''p1'' 0 (Some secret1) = submitVote (world_as alice) ''p1'' 0 None"
proof -
  have missing: "fd_get [] CSRF_FORM_FIELD = None"
    by (simp add: fd_get_def)
  show ?thesis
    using token_enforcement [of "[]" "world_as alice" "''p1''" secret1 0]
      token_enforcement [of "[]" world0 "''p1''" tea 0]
    by (simp add: missing world_as_validates world0_rejects tea_not_Nil)
qed

lemma votes_locked_simps:
  "fault votes_locked VotesDelete = Some ''votes are locked''"
  "fault votes_locked AuthGetUser = None"
  "fault votes_locked PollsSelect = None"
  "session votes_locked = Some bob"
  "polls votes_locked = [poll_b]"
  "trace votes_locked = []"
  by (simp_all add: votes_locked_def world_as_simps)

lemma bob_owns_poll_b:
  "u_role bob \<noteq> Some ''admin''" "p_user_id poll_b = u_id bob" "p_id poll_b = ''p1''"
  by (simp_all add: bob_def poll_b_def)

lemma deletePoll_by_bob: "fst (deletePoll (world_as bob) ''p1'') = None"
  by (simp add: deletePoll_flat deleteRows_flat world_as_simps bob_owns_poll_b)

lemma deletePoll_votes_locked:
  "trace (snd (deletePoll votes_locked ''p1'')) = [AuthGetUser, PollsSelect, VotesDelete]"
  by (simp add: deletePoll_flat deleteRows_flat votes_locked_simps bob_owns_poll_b)

theorem deletePoll_votes_first_witness:
  "trace (snd (deletePoll (world_as bob) ''p1'')) =
     [AuthGetUser, PollsSelect, VotesDelete, PollsDelete] \<and>
   votes (snd (deletePoll (world_as bob) ''p1'')) = [] \<and>
   polls (snd (deletePoll (world_as bob) ''p1'')) = [] \<and>
   fst (deletePoll votes_locked ''p1'') = Some ''votes are locked'' \<and>
   polls (snd (deletePoll votes_locked ''p1'')) = [poll_b]"
proof -
  have tr: "trace (snd (deletePoll (world_as bob) ''p1'')) \<noteq> [AuthGetUser, VotesDelete, PollsDelete]"
    by (simp add: deletePoll_flat deleteRows_flat world_as_simps bob_owns_poll_b)
  have del: "p_id poll_b = ''p1''" "v_poll_id vote_b = ''p1''"
    by (simp_all add: poll_b_def vote_b_def)
  show ?thesis
    using deletePoll_votes_first [of "world_as bob" "''p1''"]
      deletePoll_votes_first [of votes_locked "''p1''" "''votes are locked''"] tr
    by (simp add: deletePoll_by_bob deletePoll_votes_locked votes_locked_simps
          world_as_simps del)
qed


lemma createPoll_form_ok: "fst (createPoll (world_as u) form_ok) = None"
  by (simp add: createPoll_flat form_ok_simps(1) world_as_validates form_ok_valid world_as_simps)

lemma updatePoll_form_ok: "fst (updatePoll (world_as bob) ''p1'' form_ok) = None"
  by (simp add: updatePoll_flat form_ok_simps(1) world_as_validates form_ok_valid world_as_simps
        bob_owns_poll_b)

lemma world_as_ids: "new_id (world_as u) (inserted (world_as u)) = ''p''"
  by (simp add: world_as_def world1_def setCSRFToken_eq world0_def)

lemma form_padded_question_simps:
  "fd_get form_padded_question CSRF_FORM_FIELD = Some secret1"
  "fd_get form_padded_question ''question'' = Some padded_question"
  by (simp_all add: form_padded_question_def fd_get_def CSRF_FORM_FIELD_def)

theorem empty_string_options_dropped_witness:
  "createPoll (world_as bob) form_ok = createPoll (world_as bob) (strip_empty_options form_ok) \<and>
   fst (createPoll (world_as bob) form_ok) \<noteq> Some EMPTY_OPTION \<and>
   fst (createPoll (world_as bob) form_ok) = None \<and>
   polls (snd (createPoll (world_as bob) form_ok)) =
     [poll_b, \<lparr>p_id = ''p'', p_user_id = u_id bob, p_question = ascii ''Tea?'',
               p_options = [tea, ascii ''coffee'']\<rparr>] \<and>
   fst (updatePoll (world_as bob) ''p1'' form_ok) = None \<and>
   polls (snd (updatePoll (world_as bob) ''p1'' form_ok)) =
     [poll_b\<lparr>p_question := ascii ''Tea?'', p_options := [tea, ascii ''coffee'']\<rparr>]"
proof -
  have nonblank: "\<forall>x\<in>set (fd_getAll form_ok ''options''). x \<noteq> [] \<longrightarrow> trim x \<noteq> []"
    by (simp add: form_ok_simps(3) example_options_valid)
  have quiet: "\<forall>r. fault (world_as bob) r \<noteq> Some EMPTY_OPTION"
    by (simp add: world_as_simps)
  have row: "filter (\<lambda>p. p_id p = ''p1'') (polls (world_as bob)) = [poll_b]"
    by (simp add: world_as_simps bob_owns_poll_b)
  have ne: "ascii ''Tea?'' \<noteq> []" "tea \<noteq> []" "ascii ''coffee'' \<noteq> []"
    "tea \<noteq> ascii ''coffee''"
    by (simp_all add: tea_def ascii_def)
  show ?thesis
    using empty_string_options_dropped [where w = "world_as bob" and fd = form_ok
        and pid = "''p1''" and t = secret1 and q = "ascii ''Tea? ''" and a = tea
        and b = coffee_padded and u = bob and p = poll_b] nonblank quiet row
    by (auto simp: form_ok_simps(1,2) form_ok_options world_as_validates example_options_valid
          world_as_simps bob_owns_poll_b world_as_ids trim_examples ne)
qed

theorem raw_length_checked_trimmed_stored_witness:
  "length padded_question = 501 \<and> length (trim padded_question) = 1 \<and>
   createPoll (world_as bob) form_padded_question = (Some QUESTION_TOO_LONG, world_as bob) \<and>
   updatePoll (world_as bob) ''p1'' form_padded_question
     = (Some QUESTION_TOO_LONG, world_as bob) \<and>
   (\<exists>e. createPoll (world_as bob) form_long_blank = (Some e, world_as bob)) \<and>
   polls (snd (createPoll (world_as bob) form_ok)) =
     [poll_b, \<lparr>p_id = ''p'', p_user_id = u_id bob, p_question = ascii ''Tea?'',
               p_options = [tea, ascii ''coffee'']\<rparr>] \<and>
   polls (snd (updatePoll (world_as bob) ''p1'' form_ok)) =
     [poll_b\<lparr>p_question := ascii ''Tea?'', p_options := [tea, ascii ''coffee'']\<rparr>]"
proof -
  have mem: "long_option \<in> set (fd_getAll form_long_blank ''options'')"
    by (simp add: form_long_blank_simps(3))
  show ?thesis
    using raw_length_checked_trimmed_stored [where w = "world_as bob"
        and fd = form_padded_question and pid = "''p1''" and q = padded_question
        and t = secret1]
      raw_length_checked_trimmed_stored [where w = "world_as bob"
        and fd = form_long_blank and pid = "''p1''" and x = long_option]
      raw_length_checked_trimmed_stored [where w = "world_as bob"
        and fd = form_ok and pid = "''p1''"] mem
    by (simp add: form_padded_question_simps padded_question_simps world_as_validates
          long_option_simps createPoll_form_ok updatePoll_form_ok form_ok_simps(2)
          form_ok_options world_as_simps world_as_ids trim_examples bob_owns_poll_b)
qed

end
